theory Spec2Isabelle
  imports Main
begin

section \<open>Data model (app/models.py)\<close>

text \<open>
  The dashboard API keeps its state in relational tables accessed through an ORM session.
  A table is a list of rows, a row is a record with the columns the modelled operations
  read or write (the server-filled \<open>created_at\<close>/\<open>updated_at\<close> columns are left out).
  A UUID is its canonical text; a timestamp is a count of microseconds; Python's unbounded
  integers are \<open>int\<close>; a Python \<open>str\<close> is a list of characters.

  The schema makes every \<open>id\<close> a primary key and declares \<open>users.email\<close>,
  \<open>refresh_tokens.token_hash\<close> and \<open>projects.slug\<close> unique. A list of rows does not
  enforce that, so a theorem that needs such a constraint states it as a hypothesis
  (\<open>distinct\<close> of the column), and a query that expects at most one row can raise
  \<open>MultipleResultsFound\<close> in the model as it would in the program.
\<close>

type_synonym uuid = string
type_synonym datetime = int

datatype json =
    JNull
  | JBool bool
  | JInt int
  | JStr string
  | JList "json list"
  | JDict "(string \<times> json) list"

record user =
  u_id :: uuid
  u_email :: string
  u_name :: string
  u_password_hash :: string
  u_is_active :: bool
  u_is_superadmin :: bool

record refresh_token =
  rt_id :: uuid
  rt_user_id :: uuid
  rt_token_hash :: string
  rt_expires_at :: datetime
  rt_revoked_at :: "datetime option"

record project =
  p_id :: uuid
  p_slug :: string
  p_name :: string
  p_description :: "string option"
  p_owner_id :: uuid
  p_qdrant_collection :: string
  p_neo4j_database :: "string option"
  p_is_archived :: bool

record project_member =
  pm_id :: uuid
  pm_project_id :: uuid
  pm_user_id :: uuid
  pm_role :: string
  pm_invited_by :: "uuid option"

record webhook =
  wh_id :: uuid
  wh_project_id :: uuid
  wh_url :: string
  wh_secret :: string
  wh_events :: "string list"
  wh_is_active :: bool
  wh_last_triggered_at :: "datetime option"
  wh_last_status_code :: "int option"

record webhook_delivery =
  d_id :: uuid
  d_webhook_id :: uuid
  d_event :: string
  d_payload :: json
  d_status_code :: "int option"
  d_response_body :: "string option"
  d_attempt_count :: int
  d_next_retry_at :: "datetime option"
  d_delivered_at :: "datetime option"

record database =
  users :: "user list"
  refresh_tokens :: "refresh_token list"
  projects :: "project list"
  project_members :: "project_member list"
  webhooks :: "webhook list"
  webhook_deliveries :: "webhook_delivery list"

section \<open>Errors and query results\<close>

text \<open>
  \<open>HTTPException status detail\<close> is FastAPI's exception; \<open>MultipleResultsFound\<close> is what
  SQLAlchemy's \<open>scalar_one_or_none()\<close> raises when a query returns more than one row;
  \<open>IntegrityError\<close> is a violated unique constraint at commit.
\<close>

datatype error =
    HTTPException int string
  | MultipleResultsFound
  | IntegrityError

fun scalar_one_or_none :: "'a list \<Rightarrow> error + 'a option" where
  "scalar_one_or_none [] = Inr None"
| "scalar_one_or_none [x] = Inr (Some x)"
| "scalar_one_or_none (x # y # zs) = Inl MultipleResultsFound"

section \<open>Access control gate (app/projects/deps.py)\<close>

definition ROLE_HIERARCHY :: "(string \<times> int) list" where
  "ROLE_HIERARCHY = [(''owner'', 4), (''admin'', 3), (''member'', 2), (''viewer'', 1)]"

definition role_level :: "string \<Rightarrow> int" where
  \<comment> \<open>\<open>ROLE_HIERARCHY.get(role, 0)\<close>\<close>
  "role_level role = (case map_of ROLE_HIERARCHY role of Some n \<Rightarrow> n | None \<Rightarrow> 0)"

definition check_role_level :: "string \<Rightarrow> string \<Rightarrow> bool" where
  "check_role_level user_role min_role = (role_level user_role \<ge> role_level min_role)"

text \<open>
  The specification's role order, written from its words: the role set ordered lowest to
  highest is viewer, member, admin, owner, and the rank of a role is its position there
  (viewer 1, member 2, admin 3, owner 4).
\<close>

definition valid_roles :: "string list" where
  "valid_roles = [''viewer'', ''member'', ''admin'', ''owner'']"

fun position :: "'a \<Rightarrow> 'a list \<Rightarrow> nat" where
  "position x [] = 0"
| "position x (y # ys) = (if x = y then 1 else if position x ys = 0 then 0 else Suc (position x ys))"

definition spec_rank :: "string \<Rightarrow> nat" where
  "spec_rank role = position role valid_roles"

text \<open>
  \<open>require_project_access min_role\<close> is a request dependency: it resolves the project
  and the caller's membership, and on success stores both ids in the request state.
\<close>

record request_state =
  rs_project_id :: "uuid option"
  rs_user_id :: "uuid option"

definition require_project_access ::
  "string \<Rightarrow> string \<Rightarrow> request_state \<Rightarrow> user \<Rightarrow> database
    \<Rightarrow> error + ((project \<times> project_member) \<times> request_state)" where
  "require_project_access min_role slug request user db =
    (case scalar_one_or_none
            (filter (\<lambda>p. p_slug p = slug \<and> \<not> p_is_archived p) (projects db)) of
       Inl e \<Rightarrow> Inl e
     | Inr None \<Rightarrow> Inl (HTTPException 404 ''Project not found'')
     | Inr (Some project) \<Rightarrow>
        (case scalar_one_or_none
                (filter (\<lambda>m. pm_project_id m = p_id project \<and> pm_user_id m = u_id user)
                   (project_members db)) of
           Inl e \<Rightarrow> Inl e
         | Inr None \<Rightarrow> Inl (HTTPException 403 ''Not a project member'')
         | Inr (Some membership) \<Rightarrow>
            if \<not> check_role_level (pm_role membership) min_role
            then Inl (HTTPException 403
                   (''Requires at least '' @ [CHR 0x27] @ min_role @ [CHR 0x27] @ '' role''))
            else Inr ((project, membership),
                   request\<lparr>rs_project_id := Some (p_id project),
                     rs_user_id := Some (u_id user)\<rparr>)))"

section \<open>The world outside the process\<close>

text \<open>
  Random identifiers, the clock, the outbound HTTP client and the cryptographic and
  serialisation libraries are parameters. Every operation takes the index \<open>n\<close> of the
  step it performs: \<open>uuid4 env n\<close> is the identifier drawn at step \<open>n\<close>, the clock is read
  at most twice in a step (\<open>utcnow env (2 * n)\<close> and \<open>utcnow env (2 * n + 1)\<close>), and
  \<open>client_post env n req\<close> is what the \<open>n\<close>-th outbound POST does: \<open>Inr resp\<close> when a
  response arrives, \<open>Inl msg\<close> when httpx raises an \<open>httpx.HTTPError\<close> (timeout, DNS
  error, refused connection), \<open>msg\<close> being \<open>str(exc)\<close>.

  Operations run one at a time. A database that fails, and exceptions of the POST
  that are not \<open>httpx.HTTPError\<close> (a cancelled task, an interpreter error), are outside
  the model.
\<close>

record http_request =
  req_url :: string
  req_content :: string
  req_headers :: "(string \<times> string) list"
  req_timeout :: int

record http_response =
  resp_status_code :: int
  resp_text :: string

record environ =
  uuid4 :: "nat \<Rightarrow> uuid"
  utcnow :: "nat \<Rightarrow> datetime"
  client_post :: "nat \<Rightarrow> http_request \<Rightarrow> string + http_response"
  json_dumps :: "json \<Rightarrow> string"
  hmac_sha256_hexdigest :: "string \<Rightarrow> string \<Rightarrow> string"
  sha256_hexdigest :: "string \<Rightarrow> string"
  pwd_context_hash :: "nat \<Rightarrow> string \<Rightarrow> string"
  jwt_encode :: "uuid \<Rightarrow> datetime \<Rightarrow> string"

section \<open>Session and token issuer (app/auth/service.py)\<close>

definition ACCESS_TOKEN_EXPIRE_MINUTES :: int where
  "ACCESS_TOKEN_EXPIRE_MINUTES = 15"

definition hash_token :: "environ \<Rightarrow> string \<Rightarrow> string" where
  "hash_token env token = sha256_hexdigest env token"

definition create_user ::
  "environ \<Rightarrow> nat \<Rightarrow> database \<Rightarrow> string \<Rightarrow> string \<Rightarrow> string \<Rightarrow> error + (database \<times> user)" where
  "create_user env n db email name password =
    (let count = int (length (users db));
         user = \<lparr>u_id = uuid4 env n, u_email = email, u_name = name,
                 u_password_hash = pwd_context_hash env n password,
                 u_is_active = True, u_is_superadmin = (count = 0)\<rparr>
     in if email \<in> set (map u_email (users db)) then Inl IntegrityError
        else Inr (db\<lparr>users := users db @ [user]\<rparr>, user))"

text \<open>
  The registration endpoint (app/auth/router.py) calls \<open>create_user\<close> and answers 409 when
  it raises; \<open>register_all\<close> is a sequence of registrations, returning the users created.
\<close>

fun register_all ::
  "environ \<Rightarrow> nat \<Rightarrow> database \<Rightarrow> (string \<times> string \<times> string) list \<Rightarrow> database \<times> user list" where
  "register_all env n db [] = (db, [])"
| "register_all env n db ((email, name, password) # reqs) =
    (case create_user env n db email name password of
       Inl e \<Rightarrow> register_all env (Suc n) db reqs
     | Inr (db', user) \<Rightarrow>
        (let (db'', created) = register_all env (Suc n) db' reqs in (db'', user # created)))"

definition create_access_token :: "environ \<Rightarrow> nat \<Rightarrow> uuid \<Rightarrow> string" where
  "create_access_token env n user_id =
    (let expire = utcnow env (2 * n + 1) + ACCESS_TOKEN_EXPIRE_MINUTES * 60 * 1000000
     in jwt_encode env user_id expire)"

definition refresh_access_token ::
  "environ \<Rightarrow> nat \<Rightarrow> database \<Rightarrow> string \<Rightarrow> error + string option" where
  "refresh_access_token env n db refresh_token =
    (let token_hash = hash_token env refresh_token in
     case scalar_one_or_none
            (filter (\<lambda>rt. rt_token_hash rt = token_hash \<and> rt_revoked_at rt = None
                        \<and> rt_expires_at rt > utcnow env (2 * n))
               (refresh_tokens db)) of
       Inl e \<Rightarrow> Inl e
     | Inr None \<Rightarrow> Inr None
     | Inr (Some rt) \<Rightarrow> Inr (Some (create_access_token env n (rt_user_id rt))))"

section \<open>Project membership (app/projects/service.py)\<close>

text \<open>
  A row loaded by a query is an object of the session; assigning to it and committing
  writes that row back, deleting it removes that row. Rows carry their primary key, so
  the row written back is the one equal to the row loaded.
\<close>

definition add_member ::
  "environ \<Rightarrow> nat \<Rightarrow> database \<Rightarrow> project \<Rightarrow> string \<Rightarrow> string \<Rightarrow> uuid
    \<Rightarrow> error + (database \<times> project_member)" where
  "add_member env n db project email role invited_by =
    (case scalar_one_or_none (filter (\<lambda>u. u_email u = email) (users db)) of
       Inl e \<Rightarrow> Inl e
     | Inr None \<Rightarrow> Inl (HTTPException 404 ''User not found'')
     | Inr (Some target_user) \<Rightarrow>
        (case scalar_one_or_none
                (filter (\<lambda>m. pm_project_id m = p_id project \<and> pm_user_id m = u_id target_user)
                   (project_members db)) of
           Inl e \<Rightarrow> Inl e
         | Inr (Some existing) \<Rightarrow> Inl (HTTPException 409 ''User is already a member'')
         | Inr None \<Rightarrow>
            (let membership = \<lparr>pm_id = uuid4 env n, pm_project_id = p_id project,
                               pm_user_id = u_id target_user, pm_role = role,
                               pm_invited_by = Some invited_by\<rparr>
             in Inr (db\<lparr>project_members := project_members db @ [membership]\<rparr>, membership))))"

definition update_member ::
  "database \<Rightarrow> project \<Rightarrow> uuid \<Rightarrow> string \<Rightarrow> error + (database \<times> project_member)" where
  "update_member db project user_id role =
    (case scalar_one_or_none
            (filter (\<lambda>m. pm_project_id m = p_id project \<and> pm_user_id m = user_id)
               (project_members db)) of
       Inl e \<Rightarrow> Inl e
     | Inr None \<Rightarrow> Inl (HTTPException 404 ''Member not found'')
     | Inr (Some membership) \<Rightarrow>
        if pm_role membership = ''owner''
        then Inl (HTTPException 400 ''Cannot change owner role'')
        else (let membership' = membership\<lparr>pm_role := role\<rparr>
              in Inr (db\<lparr>project_members :=
                           map (\<lambda>m. if m = membership then membership' else m)
                             (project_members db)\<rparr>,
                      membership')))"

definition remove_member ::
  "database \<Rightarrow> project \<Rightarrow> uuid \<Rightarrow> error + (database \<times> bool)" where
  "remove_member db project user_id =
    (case scalar_one_or_none
            (filter (\<lambda>m. pm_project_id m = p_id project \<and> pm_user_id m = user_id)
               (project_members db)) of
       Inl e \<Rightarrow> Inl e
     | Inr None \<Rightarrow> Inl (HTTPException 404 ''Member not found'')
     | Inr (Some membership) \<Rightarrow>
        if pm_role membership = ''owner''
        then Inl (HTTPException 400 ''Cannot remove project owner'')
        else Inr (db\<lparr>project_members := remove1 membership (project_members db)\<rparr>, True))"

text \<open>
  A sequence of member-update and member-remove requests. A request that raises commits
  nothing, so the tables stay as they were and the next request runs on them.
\<close>

datatype member_op =
    UpdateMember project uuid string
  | RemoveMember project uuid

fun apply_member_op :: "database \<Rightarrow> member_op \<Rightarrow> database" where
  "apply_member_op db (UpdateMember project user_id role) =
    (case update_member db project user_id role of Inl e \<Rightarrow> db | Inr (db', m) \<Rightarrow> db')"
| "apply_member_op db (RemoveMember project user_id) =
    (case remove_member db project user_id of Inl e \<Rightarrow> db | Inr (db', ok) \<Rightarrow> db')"

definition apply_member_ops :: "database \<Rightarrow> member_op list \<Rightarrow> database" where
  "apply_member_ops db ops = foldl apply_member_op db ops"

section \<open>Delivery engine (app/webhooks/service.py)\<close>

text \<open>
  \<open>_sign_payload\<close> and \<open>_deliver\<close> are \<open>sign_payload\<close> and \<open>deliver\<close> here. The webhook
  handed to \<open>deliver\<close> is a row loaded in the session; its two denormalised columns are
  assigned and written back with the new delivery row by the commit.
\<close>

definition sign_payload :: "environ \<Rightarrow> string \<Rightarrow> string \<Rightarrow> string" where
  "sign_payload env payload_bytes secret = hmac_sha256_hexdigest env secret payload_bytes"

text \<open>
  The POST that \<open>_deliver\<close> and \<open>retry_failed_deliveries\<close> both issue:
  \<open>client.post(url, content=payload_bytes, headers={...}, timeout=10.0)\<close>.
\<close>

definition post_event ::
  "environ \<Rightarrow> nat \<Rightarrow> string \<Rightarrow> string \<Rightarrow> string \<Rightarrow> string \<Rightarrow> string + http_response" where
  "post_event env n url payload_bytes signature event =
    client_post env n
      \<lparr>req_url = url, req_content = payload_bytes,
       req_headers = [(''Content-Type'', ''application/json''),
                      (''X-Webhook-Signature'', signature),
                      (''X-Webhook-Event'', event)],
       req_timeout = 10\<rparr>"

definition deliver ::
  "environ \<Rightarrow> nat \<Rightarrow> database \<Rightarrow> webhook \<Rightarrow> string \<Rightarrow> json \<Rightarrow> database \<times> webhook_delivery" where
  "deliver env n db webhook event payload =
    (let payload_bytes = json_dumps env payload;
         signature = sign_payload env payload_bytes (wh_secret webhook);
         delivery = \<lparr>d_id = uuid4 env n, d_webhook_id = wh_id webhook, d_event = event,
                     d_payload = payload, d_status_code = None, d_response_body = None,
                     d_attempt_count = 1, d_next_retry_at = None, d_delivered_at = None\<rparr>;
         delivery =
           (case post_event env n (wh_url webhook) payload_bytes signature event of
              Inr resp \<Rightarrow>
                (let delivery = delivery
                       \<lparr>d_status_code := Some (resp_status_code resp),
                        d_response_body :=
                          (if resp_text resp \<noteq> [] then Some (take 2000 (resp_text resp))
                           else None)\<rparr>
                 in if 200 \<le> resp_status_code resp \<and> resp_status_code resp < 300
                    then delivery\<lparr>d_delivered_at := Some (utcnow env (2 * n))\<rparr>
                    else delivery)
            | Inl exc \<Rightarrow> delivery\<lparr>d_response_body := Some (take 2000 exc)\<rparr>);
         webhook' = webhook\<lparr>wh_last_triggered_at := Some (utcnow env (2 * n + 1)),
                            wh_last_status_code := d_status_code delivery\<rparr>
     in (db\<lparr>webhooks := map (\<lambda>w. if w = webhook then webhook' else w) (webhooks db),
            webhook_deliveries := webhook_deliveries db @ [delivery]\<rparr>,
         delivery))"

text \<open>The loop of \<open>fire_webhook\<close> over the matching webhooks, one POST per step.\<close>

fun deliver_each ::
  "environ \<Rightarrow> nat \<Rightarrow> database \<Rightarrow> webhook list \<Rightarrow> string \<Rightarrow> json
    \<Rightarrow> database \<times> webhook_delivery list" where
  "deliver_each env n db [] event payload = (db, [])"
| "deliver_each env n db (wh # matching) event payload =
    (let (db', delivery) = deliver env n db wh event payload;
         (db'', deliveries) = deliver_each env (Suc n) db' matching event payload
     in (db'', delivery # deliveries))"

definition fire_webhook ::
  "environ \<Rightarrow> nat \<Rightarrow> database \<Rightarrow> uuid \<Rightarrow> string \<Rightarrow> json \<Rightarrow> database \<times> webhook_delivery list" where
  "fire_webhook env n db project_id event payload =
    (let loaded = filter (\<lambda>w. wh_project_id w = project_id \<and> wh_is_active w) (webhooks db);
         matching = filter (\<lambda>w. event \<in> set (wh_events w) \<or> ''*'' \<in> set (wh_events w)) loaded
     in deliver_each env n db matching event payload)"

definition get_webhook :: "database \<Rightarrow> uuid \<Rightarrow> error + webhook option" where
  "get_webhook db webhook_id =
    scalar_one_or_none (filter (\<lambda>w. wh_id w = webhook_id) (webhooks db))"

definition test_webhook ::
  "environ \<Rightarrow> nat \<Rightarrow> database \<Rightarrow> uuid \<Rightarrow> error + (database \<times> webhook_delivery option)" where
  "test_webhook env n db webhook_id =
    (case get_webhook db webhook_id of
       Inl e \<Rightarrow> Inl e
     | Inr None \<Rightarrow> Inr (db, None)
     | Inr (Some webhook) \<Rightarrow>
        (let test_payload = JDict [(''event'', JStr ''webhook.test''),
                                   (''webhook_id'', JStr (wh_id webhook))];
             (db', delivery) = deliver env n db webhook ''webhook.test'' test_payload
         in Inr (db', Some delivery)))"

text \<open>
  The retry sweep. The query selects the rows with \<open>delivered_at IS NULL\<close> and
  \<open>attempt_count < 3\<close> and the loop runs over them; a row the query does not select is
  never loaded, so the loop below walks the table and passes such a row by. The rows and
  webhooks changed are written back by the single commit at the end; an exception leaves
  before that commit. \<open>keep_row\<close> puts a finished row in front of the rest of the sweep.
\<close>

definition keep_row ::
  "webhook_delivery \<Rightarrow> error + (webhook_delivery list \<times> 's) \<Rightarrow> error + (webhook_delivery list \<times> 's)" where
  "keep_row d r = (case r of Inl e \<Rightarrow> Inl e | Inr (ds, s) \<Rightarrow> Inr (d # ds, s))"

fun retry_loop ::
  "environ \<Rightarrow> webhook_delivery list \<Rightarrow> nat \<Rightarrow> webhook list \<Rightarrow> int
    \<Rightarrow> error + (webhook_delivery list \<times> nat \<times> webhook list \<times> int)" where
  "retry_loop env [] n whs retried = Inr ([], n, whs, retried)"
| "retry_loop env (delivery # rest) n whs retried =
    (if \<not> (d_delivered_at delivery = None \<and> d_attempt_count delivery < 3)
     then keep_row delivery (retry_loop env rest n whs retried)
     else
      (case scalar_one_or_none (filter (\<lambda>w. wh_id w = d_webhook_id delivery) whs) of
         Inl e \<Rightarrow> Inl e
       | Inr None \<Rightarrow> keep_row delivery (retry_loop env rest n whs retried)
       | Inr (Some webhook) \<Rightarrow>
          if \<not> wh_is_active webhook
          then keep_row delivery (retry_loop env rest n whs retried)
          else
           (let payload_bytes = json_dumps env (d_payload delivery);
                signature = sign_payload env payload_bytes (wh_secret webhook);
                delivery = delivery\<lparr>d_attempt_count := d_attempt_count delivery + 1\<rparr>;
                (delivery, retried) =
                  (case post_event env n (wh_url webhook) payload_bytes signature
                          (d_event delivery) of
                     Inr resp \<Rightarrow>
                       (let delivery = delivery
                              \<lparr>d_status_code := Some (resp_status_code resp),
                               d_response_body :=
                                 (if resp_text resp \<noteq> []
                                  then Some (take 2000 (resp_text resp)) else None)\<rparr>
                        in if 200 \<le> resp_status_code resp \<and> resp_status_code resp < 300
                           then (delivery\<lparr>d_delivered_at := Some (utcnow env (2 * n))\<rparr>,
                                 retried + 1)
                           else (delivery, retried))
                   | Inl exc \<Rightarrow>
                       (delivery\<lparr>d_response_body := Some (take 2000 exc)\<rparr>, retried));
                webhook' = webhook\<lparr>wh_last_triggered_at := Some (utcnow env (2 * n + 1)),
                                   wh_last_status_code := d_status_code delivery\<rparr>
            in keep_row delivery
                 (retry_loop env rest (Suc n)
                    (map (\<lambda>w. if w = webhook then webhook' else w) whs) retried))))"

definition retry_failed_deliveries ::
  "environ \<Rightarrow> nat \<Rightarrow> database \<Rightarrow> error + (database \<times> int)" where
  "retry_failed_deliveries env n db =
    (case retry_loop env (webhook_deliveries db) n (webhooks db) 0 of
       Inl e \<Rightarrow> Inl e
     | Inr (deliveries, n', whs, retried) \<Rightarrow>
         Inr (db\<lparr>webhooks := whs, webhook_deliveries := deliveries\<rparr>, retried))"

text \<open>webhook_retry_sweep (app/webhooks/worker.py) returns what the sweep returns.\<close>

definition webhook_retry_sweep :: "environ \<Rightarrow> nat \<Rightarrow> database \<Rightarrow> error + (database \<times> int)" where
  "webhook_retry_sweep env n db = retry_failed_deliveries env n db"

section \<open>Reading the delivery engine\<close>

text \<open>
  Notions used to state what the delivery engine does. \<open>is_2xx\<close> says that a POST was
  answered with a status in [200,300). \<open>delivery_post\<close> is the answer to the \<open>n\<close>-th POST
  when it carries \<open>payload\<close> to \<open>webhook\<close> for \<open>event\<close>; \<open>attempt_row\<close> is the row a
  first attempt records for that answer.
\<close>

definition is_2xx :: "string + http_response \<Rightarrow> bool" where
  "is_2xx r = (case r of
       Inr resp \<Rightarrow> 200 \<le> resp_status_code resp \<and> resp_status_code resp < 300
     | Inl exc \<Rightarrow> False)"

definition delivery_post ::
  "environ \<Rightarrow> nat \<Rightarrow> webhook \<Rightarrow> string \<Rightarrow> json \<Rightarrow> string + http_response" where
  "delivery_post env n webhook event payload =
    post_event env n (wh_url webhook) (json_dumps env payload)
      (sign_payload env (json_dumps env payload) (wh_secret webhook)) event"

definition attempt_row :: "environ \<Rightarrow> nat \<Rightarrow> webhook \<Rightarrow> string \<Rightarrow> json \<Rightarrow> webhook_delivery" where
  "attempt_row env n webhook event payload =
    (case delivery_post env n webhook event payload of
       Inr resp \<Rightarrow>
         \<lparr>d_id = uuid4 env n, d_webhook_id = wh_id webhook, d_event = event,
          d_payload = payload, d_status_code = Some (resp_status_code resp),
          d_response_body =
            (if resp_text resp \<noteq> [] then Some (take 2000 (resp_text resp)) else None),
          d_attempt_count = 1, d_next_retry_at = None,
          d_delivered_at =
            (if 200 \<le> resp_status_code resp \<and> resp_status_code resp < 300
             then Some (utcnow env (2 * n)) else None)\<rparr>
     | Inl exc \<Rightarrow>
         \<lparr>d_id = uuid4 env n, d_webhook_id = wh_id webhook, d_event = event,
          d_payload = payload, d_status_code = None,
          d_response_body = Some (take 2000 exc),
          d_attempt_count = 1, d_next_retry_at = None, d_delivered_at = None\<rparr>)"

fun attempt_rows ::
  "environ \<Rightarrow> nat \<Rightarrow> webhook list \<Rightarrow> string \<Rightarrow> json \<Rightarrow> webhook_delivery list" where
  "attempt_rows env n [] event payload = []"
| "attempt_rows env n (wh # whs) event payload =
    attempt_row env n wh event payload # attempt_rows env (Suc n) whs event payload"


text \<open>
  For the retry sweep: \<open>parent_webhook\<close> is the webhook a delivery row points to;
  a row is \<open>retry_attempted\<close> when the sweep selects it (not delivered, fewer than three
  attempts) and its parent webhook exists and is active; \<open>retry_post\<close> is the answer to
  the \<open>n\<close>-th POST when it re-sends the stored payload of a row to its webhook, and
  \<open>sweep_responses\<close> lists the answers a sweep gets: the attempted rows are posted in
  table order, as POST number \<open>n\<close>, \<open>n + 1\<close>, ... \<open>retried_row\<close> is the row after such
  an attempt; \<open>wh_static\<close> are the columns of a webhook that a sweep does not write.
\<close>

definition parent_webhook :: "webhook list \<Rightarrow> webhook_delivery \<Rightarrow> webhook option" where
  "parent_webhook whs d = find (\<lambda>w. wh_id w = d_webhook_id d) whs"

definition retry_attempted :: "webhook list \<Rightarrow> webhook_delivery \<Rightarrow> bool" where
  "retry_attempted whs d \<longleftrightarrow>
     d_delivered_at d = None \<and> d_attempt_count d < 3
     \<and> (case parent_webhook whs d of None \<Rightarrow> False | Some w \<Rightarrow> wh_is_active w)"

definition retry_post ::
  "environ \<Rightarrow> nat \<Rightarrow> webhook \<Rightarrow> webhook_delivery \<Rightarrow> string + http_response" where
  "retry_post env n w d =
    post_event env n (wh_url w) (json_dumps env (d_payload d))
      (sign_payload env (json_dumps env (d_payload d)) (wh_secret w)) (d_event d)"

definition sweep_responses ::
  "environ \<Rightarrow> webhook list \<Rightarrow> nat \<Rightarrow> webhook_delivery list \<Rightarrow> (string + http_response) list" where
  "sweep_responses env whs n ds =
    map (\<lambda>(k, d). retry_post env k (the (parent_webhook whs d)) d)
      (enumerate n (filter (retry_attempted whs) ds))"

definition retried_row :: "environ \<Rightarrow> nat \<Rightarrow> webhook \<Rightarrow> webhook_delivery \<Rightarrow> webhook_delivery" where
  "retried_row env n w d =
    (case retry_post env n w d of
       Inr resp \<Rightarrow>
         (if 200 \<le> resp_status_code resp \<and> resp_status_code resp < 300
          then d\<lparr>d_attempt_count := d_attempt_count d + 1,
                 d_status_code := Some (resp_status_code resp),
                 d_response_body :=
                   (if resp_text resp \<noteq> [] then Some (take 2000 (resp_text resp)) else None),
                 d_delivered_at := Some (utcnow env (2 * n))\<rparr>
          else d\<lparr>d_attempt_count := d_attempt_count d + 1,
                 d_status_code := Some (resp_status_code resp),
                 d_response_body :=
                   (if resp_text resp \<noteq> [] then Some (take 2000 (resp_text resp)) else None)\<rparr>)
     | Inl exc \<Rightarrow>
         d\<lparr>d_attempt_count := d_attempt_count d + 1,
           d_response_body := Some (take 2000 exc)\<rparr>)"

definition wh_static :: "webhook \<Rightarrow> uuid \<times> string \<times> string \<times> bool" where
  "wh_static w = (wh_id w, wh_url w, wh_secret w, wh_is_active w)"

definition sweep_row_ok :: "webhook list \<Rightarrow> webhook_delivery \<Rightarrow> webhook_delivery \<Rightarrow> bool" where
  "sweep_row_ok whs d d' \<longleftrightarrow>
     (if retry_attempted whs d
      then d_attempt_count d' = d_attempt_count d + 1 \<and> d_id d' = d_id d
           \<and> d_webhook_id d' = d_webhook_id d \<and> d_event d' = d_event d
           \<and> d_payload d' = d_payload d
      else d' = d)"

definition newly_delivered :: "webhook_delivery \<times> webhook_delivery \<Rightarrow> bool" where
  "newly_delivered p \<longleftrightarrow> d_delivered_at (fst p) = None \<and> d_delivered_at (snd p) \<noteq> None"

section \<open>Example data\<close>

text \<open>
  A small installation used to exercise the theorems: two users, one project owned by
  the first, the second a viewer of it.
\<close>

definition alice :: user where
  "alice = \<lparr>u_id = ''u1'', u_email = ''alice@example.test'', u_name = ''Alice'',
             u_password_hash = ''h1'', u_is_active = True, u_is_superadmin = True\<rparr>"

definition bob :: user where
  "bob = \<lparr>u_id = ''u2'', u_email = ''bob@example.test'', u_name = ''Bob'',
           u_password_hash = ''h2'', u_is_active = True, u_is_superadmin = False\<rparr>"

definition carol :: user where
  "carol = \<lparr>u_id = ''u3'', u_email = ''carol@example.test'', u_name = ''Carol'',
             u_password_hash = ''h3'', u_is_active = True, u_is_superadmin = False\<rparr>"

definition demo :: project where
  "demo = \<lparr>p_id = ''p1'', p_slug = ''demo'', p_name = ''Demo'', p_description = None,
            p_owner_id = ''u1'', p_qdrant_collection = ''proj_demo_memories'',
            p_neo4j_database = None, p_is_archived = False\<rparr>"

definition owner_row :: project_member where
  "owner_row = \<lparr>pm_id = ''m1'', pm_project_id = ''p1'', pm_user_id = ''u1'',
                 pm_role = ''owner'', pm_invited_by = None\<rparr>"

definition viewer_row :: project_member where
  "viewer_row = \<lparr>pm_id = ''m2'', pm_project_id = ''p1'', pm_user_id = ''u2'',
                  pm_role = ''viewer'', pm_invited_by = Some ''u1''\<rparr>"

definition example_db :: database where
  "example_db = \<lparr>users = [alice, bob, carol], refresh_tokens = [], projects = [demo],
                  project_members = [owner_row, viewer_row], webhooks = [],
                  webhook_deliveries = []\<rparr>"

definition empty_request :: request_state where
  "empty_request = \<lparr>rs_project_id = None, rs_user_id = None\<rparr>"

definition example_env :: environ where
  "example_env =
    \<lparr>uuid4 = (\<lambda>n. if n = 0 then ''id0'' else if n = 1 then ''id1'' else ''id2''),
     utcnow = (\<lambda>k. 1000 + int k),
     client_post = (\<lambda>n req.
        if n = 0 then Inr \<lparr>resp_status_code = 200, resp_text = ''ok''\<rparr>
        else if n = 1 then Inr \<lparr>resp_status_code = 500, resp_text = ''''\<rparr>
        else Inl ''timed out''),
     json_dumps = (\<lambda>j. ''{}''),
     hmac_sha256_hexdigest = (\<lambda>key msg. ''sig-'' @ key),
     sha256_hexdigest = (\<lambda>s. ''sha-'' @ s),
     pwd_context_hash = (\<lambda>n p. ''bcrypt-'' @ p),
     jwt_encode = (\<lambda>sub exp. ''jwt-'' @ sub)\<rparr>"

definition live_token :: refresh_token where
  "live_token = \<lparr>rt_id = ''t1'', rt_user_id = ''u1'', rt_token_hash = ''sha-live'',
                  rt_expires_at = 5000, rt_revoked_at = None\<rparr>"

definition revoked_token :: refresh_token where
  "revoked_token = \<lparr>rt_id = ''t2'', rt_user_id = ''u1'', rt_token_hash = ''sha-revoked'',
                     rt_expires_at = 5000, rt_revoked_at = Some 900\<rparr>"

definition expired_token :: refresh_token where
  "expired_token = \<lparr>rt_id = ''t3'', rt_user_id = ''u2'', rt_token_hash = ''sha-expired'',
                     rt_expires_at = 1000, rt_revoked_at = None\<rparr>"

definition token_db :: database where
  "token_db = example_db\<lparr>refresh_tokens := [live_token, revoked_token, expired_token]\<rparr>"

definition empty_db :: database where
  "empty_db = \<lparr>users = [], refresh_tokens = [], projects = [], project_members = [],
                webhooks = [], webhook_deliveries = []\<rparr>"

text \<open>
  Four webhooks of the example project: one subscribed to \<open>memory.created\<close>, one to every
  event, one to \<open>memory.deleted\<close>, and an inactive one. In \<open>example_env\<close> POST number 0
  is answered 200, POST number 1 is answered 500 and every later POST times out.
\<close>

definition hook_created :: webhook where
  "hook_created = \<lparr>wh_id = ''w1'', wh_project_id = ''p1'', wh_url = ''https://example.test/hook'',
                    wh_secret = ''s1'', wh_events = [''memory.created''], wh_is_active = True,
                    wh_last_triggered_at = None, wh_last_status_code = None\<rparr>"

definition hook_all :: webhook where
  "hook_all = \<lparr>wh_id = ''w2'', wh_project_id = ''p1'', wh_url = ''https://example.test/all'',
                wh_secret = ''s2'', wh_events = [''*''], wh_is_active = True,
                wh_last_triggered_at = None, wh_last_status_code = None\<rparr>"

definition hook_deleted :: webhook where
  "hook_deleted = \<lparr>wh_id = ''w3'', wh_project_id = ''p1'', wh_url = ''https://example.test/del'',
                    wh_secret = ''s3'', wh_events = [''memory.deleted''], wh_is_active = True,
                    wh_last_triggered_at = None, wh_last_status_code = None\<rparr>"

definition hook_off :: webhook where
  "hook_off = \<lparr>wh_id = ''w4'', wh_project_id = ''p1'', wh_url = ''https://example.test/off'',
                wh_secret = ''s4'', wh_events = [''*''], wh_is_active = False,
                wh_last_triggered_at = None, wh_last_status_code = None\<rparr>"

definition hook_db :: database where
  "hook_db = example_db\<lparr>webhooks := [hook_created, hook_all, hook_deleted, hook_off]\<rparr>"

definition memory_payload :: json where
  "memory_payload = JDict [(''memory_id'', JStr ''abc'')]"

text \<open>
  Delivery rows for the retry sweep: a failed first attempt to \<open>w1\<close>, a delivered row, an
  exhausted row, a row whose webhook was deleted, a row of the inactive webhook, and a
  twice-failed row of \<open>w2\<close>.
\<close>

definition row_failed :: webhook_delivery where
  "row_failed = \<lparr>d_id = ''d1'', d_webhook_id = ''w1'', d_event = ''memory.created'',
                  d_payload = memory_payload, d_status_code = Some 500,
                  d_response_body = Some ''oops'', d_attempt_count = 1,
                  d_next_retry_at = None, d_delivered_at = None\<rparr>"

definition row_done :: webhook_delivery where
  "row_done = \<lparr>d_id = ''d2'', d_webhook_id = ''w1'', d_event = ''memory.created'',
                d_payload = memory_payload, d_status_code = Some 200,
                d_response_body = Some ''ok'', d_attempt_count = 1,
                d_next_retry_at = None, d_delivered_at = Some 900\<rparr>"

definition row_exhausted :: webhook_delivery where
  "row_exhausted = \<lparr>d_id = ''d3'', d_webhook_id = ''w2'', d_event = ''memory.created'',
                     d_payload = memory_payload, d_status_code = None,
                     d_response_body = Some ''timed out'', d_attempt_count = 3,
                     d_next_retry_at = None, d_delivered_at = None\<rparr>"

definition row_orphan :: webhook_delivery where
  "row_orphan = \<lparr>d_id = ''d4'', d_webhook_id = ''w9'', d_event = ''memory.created'',
                  d_payload = memory_payload, d_status_code = Some 503,
                  d_response_body = None, d_attempt_count = 1,
                  d_next_retry_at = None, d_delivered_at = None\<rparr>"

definition row_off :: webhook_delivery where
  "row_off = \<lparr>d_id = ''d5'', d_webhook_id = ''w4'', d_event = ''memory.created'',
               d_payload = memory_payload, d_status_code = Some 503,
               d_response_body = None, d_attempt_count = 1,
               d_next_retry_at = None, d_delivered_at = None\<rparr>"

definition row_failed_twice :: webhook_delivery where
  "row_failed_twice = \<lparr>d_id = ''d6'', d_webhook_id = ''w2'', d_event = ''memory.deleted'',
                        d_payload = memory_payload, d_status_code = Some 502,
                        d_response_body = None, d_attempt_count = 2,
                        d_next_retry_at = None, d_delivered_at = None\<rparr>"

definition retry_db :: database where
  "retry_db = hook_db\<lparr>webhook_deliveries :=
      [row_failed, row_done, row_exhausted, row_orphan, row_off, row_failed_twice]\<rparr>"

section \<open>Queries that return at most one row\<close>

lemma scalar_one_or_none_empty:
  assumes "\<not> (\<exists>x\<in>set xs. P x)"
  shows "scalar_one_or_none (filter P xs) = Inr None"
proof -
  from assms have "filter P xs = []" by (induction xs) simp_all
  then show ?thesis by simp
qed

lemma filter_unique_key:
  assumes "distinct (map f xs)" and "x \<in> set xs" and "P x"
    and "\<forall>y\<in>set xs. P y \<longrightarrow> f y = f x"
  shows "filter P xs = [x]"
proof -
  from assms(1) have inj: "inj_on f (set xs)" and d: "distinct xs"
    by (simp_all add: distinct_map)
  have "filter P xs = filter (\<lambda>y. y = x) xs"
  proof (rule filter_cong[OF refl])
    fix y assume y: "y \<in> set xs"
    show "P y = (y = x)"
    proof
      assume "P y"
      with assms(4) y have "f y = f x" by blast
      with inj y assms(2) show "y = x" by (rule_tac inj_onD)
    next
      assume "y = x"
      with assms(3) show "P y" by simp
    qed
  qed
  also from d assms(2) have "filter (\<lambda>y. y = x) xs = [x]"
    by (induction xs) (auto simp: filter_empty_conv)
  finally show ?thesis .
qed

lemma scalar_one_or_none_unique:
  assumes "distinct (map f xs)" and "x \<in> set xs" and "P x"
    and "\<forall>y\<in>set xs. P y \<longrightarrow> f y = f x"
  shows "scalar_one_or_none (filter P xs) = Inr (Some x)"
  by (simp add: filter_unique_key[OF assms])

lemma scalar_one_or_none_SomeD:
  "scalar_one_or_none ys = Inr (Some x) \<Longrightarrow> ys = [x]"
  by (cases ys rule: scalar_one_or_none.cases) simp_all

lemma scalar_one_or_none_NoneD:
  "scalar_one_or_none ys = Inr None \<Longrightarrow> ys = []"
  by (cases ys rule: scalar_one_or_none.cases) simp_all

lemma scalar_one_or_none_InlD:
  "scalar_one_or_none ys = Inl e \<Longrightarrow> e = MultipleResultsFound \<and> 2 \<le> length ys"
  by (cases ys rule: scalar_one_or_none.cases) simp_all

lemma scalar_one_or_none_member:
  "x \<in> set ys \<Longrightarrow>
    scalar_one_or_none ys = Inl MultipleResultsFound \<or> scalar_one_or_none ys = Inr (Some x)"
  by (cases ys rule: scalar_one_or_none.cases) auto

section \<open>Role order\<close>

lemma role_level_valid:
  "role_level ''viewer'' = 1" "role_level ''member'' = 2"
  "role_level ''admin'' = 3" "role_level ''owner'' = 4"
  by (simp_all add: role_level_def ROLE_HIERARCHY_def)

lemma spec_rank_valid:
  "spec_rank ''viewer'' = 1" "spec_rank ''member'' = 2"
  "spec_rank ''admin'' = 3" "spec_rank ''owner'' = 4"
  by (simp_all add: spec_rank_def valid_roles_def)

lemma role_level_is_spec_rank:
  assumes "role \<in> set valid_roles"
  shows "role_level role = int (spec_rank role)"
proof -
  from assms consider "role = ''viewer''" | "role = ''member''" | "role = ''admin''" | "role = ''owner''"
    by (auto simp: valid_roles_def)
  then show ?thesis
    by cases (simp_all add: role_level_valid spec_rank_valid)
qed

text \<open>
  Claim C5. For every pair (actual, required) of the four valid roles,
  \<open>check_role_level actual required\<close> holds if and only if the rank of \<open>actual\<close> is at
  least the rank of \<open>required\<close>, where the ranks are owner 4, admin 3, member 2, viewer 1.
\<close>

theorem check_role_level_total_order:
  assumes "actual \<in> set valid_roles" and "required \<in> set valid_roles"
  shows "(check_role_level actual required \<longleftrightarrow> spec_rank actual \<ge> spec_rank required)
    \<and> spec_rank ''owner'' = 4 \<and> spec_rank ''admin'' = 3
    \<and> spec_rank ''member'' = 2 \<and> spec_rank ''viewer'' = 1"
  using assms by (simp add: check_role_level_def role_level_is_spec_rank spec_rank_valid)

theorem check_role_level_total_order_witness:
  "''admin'' \<in> set valid_roles \<and> ''owner'' \<in> set valid_roles
   \<and> \<not> check_role_level ''admin'' ''owner'' \<and> check_role_level ''owner'' ''admin''
   \<and> spec_rank ''admin'' < spec_rank ''owner''"
proof -
  have a: "''admin'' \<in> set valid_roles" and o: "''owner'' \<in> set valid_roles"
    by (simp_all add: valid_roles_def)
  from check_role_level_total_order[OF a o] check_role_level_total_order[OF o a] a o
  show ?thesis by (simp add: spec_rank_valid)
qed

section \<open>Resolving access to a project\<close>

lemma require_project_access_no_project:
  assumes "\<not> (\<exists>p\<in>set (projects db). p_slug p = slug \<and> \<not> p_is_archived p)"
  shows "require_project_access min_role slug request user db
           = Inl (HTTPException 404 ''Project not found'')"
  using scalar_one_or_none_empty[of "projects db" "\<lambda>p. p_slug p = slug \<and> \<not> p_is_archived p"] assms
  by (simp add: require_project_access_def)

lemma require_project_access_project:
  assumes "distinct (map p_slug (projects db))"
    and "p \<in> set (projects db)" and "p_slug p = slug" and "\<not> p_is_archived p"
  shows "require_project_access min_role slug request user db =
    (case scalar_one_or_none
            (filter (\<lambda>m. pm_project_id m = p_id p \<and> pm_user_id m = u_id user)
               (project_members db)) of
       Inl e \<Rightarrow> Inl e
     | Inr None \<Rightarrow> Inl (HTTPException 403 ''Not a project member'')
     | Inr (Some membership) \<Rightarrow>
        if \<not> check_role_level (pm_role membership) min_role
        then Inl (HTTPException 403
               (''Requires at least '' @ [CHR 0x27] @ min_role @ [CHR 0x27] @ '' role''))
        else Inr ((p, membership),
               request\<lparr>rs_project_id := Some (p_id p), rs_user_id := Some (u_id user)\<rparr>))"
proof -
  have "scalar_one_or_none (filter (\<lambda>q. p_slug q = slug \<and> \<not> p_is_archived q) (projects db))
          = Inr (Some p)"
    by (rule scalar_one_or_none_unique[where f = p_slug]) (use assms in auto)
  then show ?thesis by (simp add: require_project_access_def)
qed

lemma require_project_access_no_member:
  assumes "distinct (map p_slug (projects db))"
    and "p \<in> set (projects db)" and "p_slug p = slug" and "\<not> p_is_archived p"
    and "\<not> (\<exists>m\<in>set (project_members db). pm_project_id m = p_id p \<and> pm_user_id m = u_id user)"
  shows "require_project_access min_role slug request user db
           = Inl (HTTPException 403 ''Not a project member'')"
  using scalar_one_or_none_empty[of "project_members db"
           "\<lambda>m. pm_project_id m = p_id p \<and> pm_user_id m = u_id user"] assms(5)
  by (simp add: require_project_access_project[OF assms(1-4)])

lemma require_project_access_member:
  assumes "distinct (map p_slug (projects db))"
    and "distinct (map (\<lambda>m. (pm_project_id m, pm_user_id m)) (project_members db))"
    and "p \<in> set (projects db)" and "p_slug p = slug" and "\<not> p_is_archived p"
    and "m \<in> set (project_members db)" and "pm_project_id m = p_id p" and "pm_user_id m = u_id user"
  shows "require_project_access min_role slug request user db =
     (if role_level (pm_role m) < role_level min_role
      then Inl (HTTPException 403
             (''Requires at least '' @ [CHR 0x27] @ min_role @ [CHR 0x27] @ '' role''))
      else Inr ((p, m), request\<lparr>rs_project_id := Some (p_id p), rs_user_id := Some (u_id user)\<rparr>))"
proof -
  have "scalar_one_or_none
          (filter (\<lambda>x. pm_project_id x = p_id p \<and> pm_user_id x = u_id user) (project_members db))
        = Inr (Some m)"
    by (rule scalar_one_or_none_unique[where f = "\<lambda>m. (pm_project_id m, pm_user_id m)"])
       (use assms in auto)
  then show ?thesis
    by (simp add: require_project_access_project[OF assms(1,3,4,5)] check_role_level_def not_le)
qed

text \<open>
  Claim C4. \<open>require_project_access\<close> fails with 404 whenever no non-archived project has
  the given slug; given such a project it fails with 403 whenever the principal has no
  membership row in it; given a membership it fails with 403 whenever the rank of the
  membership's role is below the rank of the required role; otherwise it succeeds and
  returns the project and the membership. Every outcome is one of 404, 403 and success,
  and no outcome is both 404 and 403. The tables satisfy the schema's uniqueness of slugs
  and the data model's uniqueness of (project, user) pairs.
\<close>

theorem require_project_access_outcomes:
  assumes slug_unique: "distinct (map p_slug (projects db))"
    and pair_unique: "distinct (map (\<lambda>m. (pm_project_id m, pm_user_id m)) (project_members db))"
  shows "let R = require_project_access min_role slug request user db in
    (\<not> (\<exists>p\<in>set (projects db). p_slug p = slug \<and> \<not> p_is_archived p) \<longrightarrow>
        (\<exists>detail. R = Inl (HTTPException 404 detail)))
    \<and> (\<forall>p\<in>set (projects db). p_slug p = slug \<and> \<not> p_is_archived p \<longrightarrow>
         (\<not> (\<exists>m\<in>set (project_members db). pm_project_id m = p_id p \<and> pm_user_id m = u_id user) \<longrightarrow>
            (\<exists>detail. R = Inl (HTTPException 403 detail)))
       \<and> (\<forall>m\<in>set (project_members db). pm_project_id m = p_id p \<and> pm_user_id m = u_id user \<longrightarrow>
            (role_level (pm_role m) < role_level min_role \<longrightarrow>
               (\<exists>detail. R = Inl (HTTPException 403 detail)))
          \<and> (role_level min_role \<le> role_level (pm_role m) \<longrightarrow>
               (\<exists>request'. R = Inr ((p, m), request')))))
    \<and> ((\<exists>detail. R = Inl (HTTPException 404 detail))
        \<or> (\<exists>detail. R = Inl (HTTPException 403 detail))
        \<or> (\<exists>p m request'. R = Inr ((p, m), request')))
    \<and> \<not> ((\<exists>detail. R = Inl (HTTPException 404 detail))
           \<and> (\<exists>detail. R = Inl (HTTPException 403 detail)))"
proof -
  define R where "R = require_project_access min_role slug request user db"
  have no_project: "\<exists>detail. R = Inl (HTTPException 404 detail)"
    if "\<not> (\<exists>p\<in>set (projects db). p_slug p = slug \<and> \<not> p_is_archived p)"
    using require_project_access_no_project[OF that] by (simp add: R_def)
  have no_member: "\<exists>detail. R = Inl (HTTPException 403 detail)"
    if "p \<in> set (projects db)" "p_slug p = slug" "\<not> p_is_archived p"
      "\<not> (\<exists>m\<in>set (project_members db). pm_project_id m = p_id p \<and> pm_user_id m = u_id user)"
    for p
    using require_project_access_no_member[OF slug_unique that] by (simp add: R_def)
  have member: "R = (if role_level (pm_role m) < role_level min_role
      then Inl (HTTPException 403
             (''Requires at least '' @ [CHR 0x27] @ min_role @ [CHR 0x27] @ '' role''))
      else Inr ((p, m), request\<lparr>rs_project_id := Some (p_id p), rs_user_id := Some (u_id user)\<rparr>))"
    if "p \<in> set (projects db)" "p_slug p = slug" "\<not> p_is_archived p"
      "m \<in> set (project_members db)" "pm_project_id m = p_id p" "pm_user_id m = u_id user"
    for p m
    using require_project_access_member[OF slug_unique pair_unique that] by (simp add: R_def)
  have low: "\<exists>detail. R = Inl (HTTPException 403 detail)"
    if "p \<in> set (projects db)" "p_slug p = slug" "\<not> p_is_archived p"
      "m \<in> set (project_members db)" "pm_project_id m = p_id p" "pm_user_id m = u_id user"
      "role_level (pm_role m) < role_level min_role"
    for p m
    using member[OF that(1-6)] that(7) by simp
  have high: "\<exists>request'. R = Inr ((p, m), request')"
    if "p \<in> set (projects db)" "p_slug p = slug" "\<not> p_is_archived p"
      "m \<in> set (project_members db)" "pm_project_id m = p_id p" "pm_user_id m = u_id user"
      "role_level min_role \<le> role_level (pm_role m)"
    for p m
    using member[OF that(1-6)] that(7) by simp
  have exhaustive: "(\<exists>detail. R = Inl (HTTPException 404 detail))
        \<or> (\<exists>detail. R = Inl (HTTPException 403 detail))
        \<or> (\<exists>p m request'. R = Inr ((p, m), request'))"
  proof (cases "\<exists>p\<in>set (projects db). p_slug p = slug \<and> \<not> p_is_archived p")
    case False
    then show ?thesis using no_project by blast
  next
    case True
    then obtain p where p: "p \<in> set (projects db)" "p_slug p = slug" "\<not> p_is_archived p"
      by blast
    show ?thesis
    proof (cases "\<exists>m\<in>set (project_members db). pm_project_id m = p_id p \<and> pm_user_id m = u_id user")
      case False
      then show ?thesis using no_member[OF p] by blast
    next
      case True
      then obtain m where m: "m \<in> set (project_members db)" "pm_project_id m = p_id p"
          "pm_user_id m = u_id user"
        by blast
      show ?thesis
      proof (cases "role_level (pm_role m) < role_level min_role")
        case True
        then show ?thesis using low[OF p m] by blast
      next
        case False
        then have "role_level min_role \<le> role_level (pm_role m)" by simp
        then show ?thesis using high[OF p m] by blast
      qed
    qed
  qed
  have exclusive: "\<not> ((\<exists>detail. R = Inl (HTTPException 404 detail))
           \<and> (\<exists>detail. R = Inl (HTTPException 403 detail)))"
    by auto
  have per_project: "\<forall>p\<in>set (projects db). p_slug p = slug \<and> \<not> p_is_archived p \<longrightarrow>
         (\<not> (\<exists>m\<in>set (project_members db). pm_project_id m = p_id p \<and> pm_user_id m = u_id user) \<longrightarrow>
            (\<exists>detail. R = Inl (HTTPException 403 detail)))
       \<and> (\<forall>m\<in>set (project_members db). pm_project_id m = p_id p \<and> pm_user_id m = u_id user \<longrightarrow>
            (role_level (pm_role m) < role_level min_role \<longrightarrow>
               (\<exists>detail. R = Inl (HTTPException 403 detail)))
          \<and> (role_level min_role \<le> role_level (pm_role m) \<longrightarrow>
               (\<exists>request'. R = Inr ((p, m), request'))))"
    using no_member low high by blast
  from no_project per_project exhaustive exclusive
  show ?thesis unfolding Let_def R_def[symmetric] by blast
qed

theorem require_project_access_outcomes_witness:
  "distinct (map p_slug (projects example_db))
   \<and> distinct (map (\<lambda>m. (pm_project_id m, pm_user_id m)) (project_members example_db))
   \<and> (\<exists>detail. require_project_access ''admin'' ''demo'' empty_request bob example_db
          = Inl (HTTPException 403 detail))
   \<and> (\<exists>request'. require_project_access ''admin'' ''demo'' empty_request alice example_db
          = Inr ((demo, owner_row), request'))
   \<and> (\<exists>detail. require_project_access ''viewer'' ''missing'' empty_request alice example_db
          = Inl (HTTPException 404 detail))
   \<and> (\<exists>detail. require_project_access ''viewer'' ''demo'' empty_request carol example_db
          = Inl (HTTPException 403 detail))"
proof -
  have h1: "distinct (map p_slug (projects example_db))"
    by (simp add: example_db_def)
  have h2: "distinct (map (\<lambda>m. (pm_project_id m, pm_user_id m)) (project_members example_db))"
    by (simp add: example_db_def owner_row_def viewer_row_def)
  have demo: "demo \<in> set (projects example_db)" "p_slug demo = ''demo''" "\<not> p_is_archived demo"
    by (simp_all add: example_db_def demo_def)
  have rows: "owner_row \<in> set (project_members example_db)"
      "viewer_row \<in> set (project_members example_db)"
    by (simp_all add: example_db_def)
  have owner: "pm_project_id owner_row = p_id demo" "pm_user_id owner_row = u_id alice"
      "role_level ''admin'' \<le> role_level (pm_role owner_row)"
    by (simp_all add: owner_row_def demo_def alice_def role_level_valid)
  have viewer: "pm_project_id viewer_row = p_id demo" "pm_user_id viewer_row = u_id bob"
      "role_level (pm_role viewer_row) < role_level ''admin''"
    by (simp_all add: viewer_row_def demo_def bob_def role_level_valid)
  have missing: "\<not> (\<exists>p\<in>set (projects example_db). p_slug p = ''missing'' \<and> \<not> p_is_archived p)"
    by (simp add: example_db_def demo_def)
  have carol: "\<not> (\<exists>m\<in>set (project_members example_db).
                  pm_project_id m = p_id demo \<and> pm_user_id m = u_id carol)"
    by (simp add: example_db_def owner_row_def viewer_row_def carol_def)
  note T = require_project_access_outcomes[OF h1 h2, unfolded Let_def]
  have c1: "\<exists>detail. require_project_access ''admin'' ''demo'' empty_request bob example_db
          = Inl (HTTPException 403 detail)"
    using T[where slug = "''demo''" and user = bob and min_role = "''admin''" and request = empty_request] demo rows(2) viewer by blast
  have c2: "\<exists>request'. require_project_access ''admin'' ''demo'' empty_request alice example_db
          = Inr ((demo, owner_row), request')"
    using T[where slug = "''demo''" and user = alice and min_role = "''admin''" and request = empty_request] demo rows(1) owner by blast
  have c3: "\<exists>detail. require_project_access ''viewer'' ''missing'' empty_request alice example_db
          = Inl (HTTPException 404 detail)"
    using T[where slug = "''missing''" and user = alice and min_role = "''viewer''" and request = empty_request] missing by blast
  have c4: "\<exists>detail. require_project_access ''viewer'' ''demo'' empty_request carol example_db
          = Inl (HTTPException 403 detail)"
    using T[where slug = "''demo''" and user = carol and min_role = "''viewer''" and request = empty_request] demo carol by blast
  from h1 h2 c1 c2 c3 c4 show ?thesis by blast
qed

section \<open>Redeeming a refresh token\<close>

lemma refresh_access_token_rejected:
  assumes "distinct (map rt_token_hash (refresh_tokens db))"
    and "rt \<in> set (refresh_tokens db)" and "rt_token_hash rt = hash_token env token"
    and "rt_revoked_at rt \<noteq> None \<or> rt_expires_at rt \<le> utcnow env (2 * n)"
  shows "refresh_access_token env n db token = Inr None"
proof -
  let ?P = "\<lambda>x. rt_token_hash x = hash_token env token \<and> rt_revoked_at x = None
                \<and> rt_expires_at x > utcnow env (2 * n)"
  from assms(1) have inj: "inj_on rt_token_hash (set (refresh_tokens db))"
    by (simp add: distinct_map)
  have "\<not> (\<exists>x\<in>set (refresh_tokens db). ?P x)"
  proof
    assume "\<exists>x\<in>set (refresh_tokens db). ?P x"
    then obtain x where x: "x \<in> set (refresh_tokens db)" "?P x" by blast
    with assms(3) have "rt_token_hash x = rt_token_hash rt" by simp
    with inj x(1) assms(2) have "x = rt" by (rule_tac inj_onD)
    with x(2) assms(4) show False by auto
  qed
  then have "scalar_one_or_none (filter ?P (refresh_tokens db)) = Inr None"
    by (rule scalar_one_or_none_empty)
  then show ?thesis by (simp add: refresh_access_token_def)
qed

lemma refresh_access_token_SomeD:
  assumes "refresh_access_token env n db token = Inr (Some access)"
  shows "\<exists>rt\<in>set (refresh_tokens db). rt_token_hash rt = hash_token env token
            \<and> rt_revoked_at rt = None \<and> rt_expires_at rt > utcnow env (2 * n)
            \<and> access = create_access_token env n (rt_user_id rt)"
proof -
  let ?P = "\<lambda>x. rt_token_hash x = hash_token env token \<and> rt_revoked_at x = None
                \<and> rt_expires_at x > utcnow env (2 * n)"
  from assms obtain rt where
    rt: "scalar_one_or_none (filter ?P (refresh_tokens db)) = Inr (Some rt)"
    and access: "access = create_access_token env n (rt_user_id rt)"
    by (auto simp: refresh_access_token_def split: sum.splits option.splits)
  from scalar_one_or_none_SomeD[OF rt] have "rt \<in> set (filter ?P (refresh_tokens db))"
    by simp
  then have "rt \<in> set (refresh_tokens db)" "?P rt" by simp_all
  with access show ?thesis by blast
qed

lemma refresh_access_token_valid:
  assumes "distinct (map rt_token_hash (refresh_tokens db))"
    and "rt \<in> set (refresh_tokens db)" and "rt_token_hash rt = hash_token env token"
    and "rt_revoked_at rt = None" and "rt_expires_at rt > utcnow env (2 * n)"
  shows "refresh_access_token env n db token
           = Inr (Some (create_access_token env n (rt_user_id rt)))"
proof -
  have "scalar_one_or_none
          (filter (\<lambda>x. rt_token_hash x = hash_token env token \<and> rt_revoked_at x = None
                      \<and> rt_expires_at x > utcnow env (2 * n)) (refresh_tokens db))
        = Inr (Some rt)"
    by (rule scalar_one_or_none_unique[where f = rt_token_hash]) (use assms in auto)
  then show ?thesis by (simp add: refresh_access_token_def)
qed

text \<open>
  Claim C6. \<open>refresh_access_token\<close> returns None for every refresh token whose stored row
  has a revocation timestamp, even if its expiry is in the future, and for every token
  whose expiry is not after the current time, even if unrevoked; it returns an access
  token only for a stored token that is both unrevoked and unexpired (and for such a
  token it does return one). Token hashes are unique in the table, as the schema declares.
\<close>

theorem refresh_access_token_unrevoked_unexpired:
  assumes "distinct (map rt_token_hash (refresh_tokens db))"
  shows "(\<forall>rt\<in>set (refresh_tokens db).
            rt_token_hash rt = hash_token env token \<and> rt_revoked_at rt \<noteq> None \<longrightarrow>
            refresh_access_token env n db token = Inr None)
    \<and> (\<forall>rt\<in>set (refresh_tokens db).
            rt_token_hash rt = hash_token env token \<and> rt_expires_at rt \<le> utcnow env (2 * n) \<longrightarrow>
            refresh_access_token env n db token = Inr None)
    \<and> (\<forall>access. refresh_access_token env n db token = Inr (Some access) \<longrightarrow>
          (\<exists>rt\<in>set (refresh_tokens db). rt_token_hash rt = hash_token env token
              \<and> rt_revoked_at rt = None \<and> rt_expires_at rt > utcnow env (2 * n)
              \<and> access = create_access_token env n (rt_user_id rt)))
    \<and> (\<forall>rt\<in>set (refresh_tokens db).
            rt_token_hash rt = hash_token env token \<and> rt_revoked_at rt = None
              \<and> rt_expires_at rt > utcnow env (2 * n) \<longrightarrow>
            refresh_access_token env n db token
              = Inr (Some (create_access_token env n (rt_user_id rt))))"
  using refresh_access_token_rejected[OF assms] refresh_access_token_SomeD
    refresh_access_token_valid[OF assms]
  by blast

theorem refresh_access_token_unrevoked_unexpired_witness:
  "distinct (map rt_token_hash (refresh_tokens token_db))
   \<and> refresh_access_token example_env 0 token_db ''revoked'' = Inr None
   \<and> refresh_access_token example_env 0 token_db ''expired'' = Inr None
   \<and> refresh_access_token example_env 0 token_db ''live''
        = Inr (Some (create_access_token example_env 0 ''u1''))"
proof -
  have h: "distinct (map rt_token_hash (refresh_tokens token_db))"
    by (simp add: token_db_def live_token_def revoked_token_def expired_token_def)
  have rows: "live_token \<in> set (refresh_tokens token_db)"
      "revoked_token \<in> set (refresh_tokens token_db)"
      "expired_token \<in> set (refresh_tokens token_db)"
    by (simp_all add: token_db_def)
  have revoked: "rt_token_hash revoked_token = hash_token example_env ''revoked''"
      "rt_revoked_at revoked_token \<noteq> None" "utcnow example_env (2 * 0) < rt_expires_at revoked_token"
    by (simp_all add: revoked_token_def hash_token_def example_env_def)
  have expired: "rt_token_hash expired_token = hash_token example_env ''expired''"
      "rt_expires_at expired_token \<le> utcnow example_env (2 * 0)" "rt_revoked_at expired_token = None"
    by (simp_all add: expired_token_def hash_token_def example_env_def)
  have live: "rt_token_hash live_token = hash_token example_env ''live''"
      "rt_revoked_at live_token = None" "utcnow example_env (2 * 0) < rt_expires_at live_token"
      "rt_user_id live_token = ''u1''"
    by (simp_all add: live_token_def hash_token_def example_env_def)
  note T = refresh_access_token_unrevoked_unexpired[OF h, where env = example_env and n = 0]
  have c1: "refresh_access_token example_env 0 token_db ''revoked'' = Inr None"
    using T[where token = "''revoked''"] rows(2) revoked by blast
  have c2: "refresh_access_token example_env 0 token_db ''expired'' = Inr None"
    using T[where token = "''expired''"] rows(3) expired by blast
  have c3: "refresh_access_token example_env 0 token_db ''live''
        = Inr (Some (create_access_token example_env 0 ''u1''))"
    using T[where token = "''live''"] rows(1) live by metis
  from h c1 c2 c3 show ?thesis by blast
qed

section \<open>The first registered user\<close>

lemma create_user_InrD:
  assumes "create_user env n db email name password = Inr (db', u)"
  shows "(u_is_superadmin u \<longleftrightarrow> users db = []) \<and> users db' = users db @ [u]"
  using assms by (auto simp: create_user_def Let_def split: if_splits)

lemma create_user_empty:
  assumes "users db = []"
  shows "\<exists>db' u. create_user env n db email name password = Inr (db', u) \<and> u_is_superadmin u"
  using assms by (simp add: create_user_def Let_def)

lemma register_all_nonempty:
  assumes "users db \<noteq> []" and "register_all env n db reqs = (db', created)"
  shows "\<forall>u\<in>set created. \<not> u_is_superadmin u"
  using assms
proof (induction reqs arbitrary: n db db' created)
  case Nil
  then show ?case by simp
next
  case (Cons req reqs)
  obtain email name password where req: "req = (email, name, password)"
    by (cases req) auto
  show ?case
  proof (cases "create_user env n db email name password")
    case (Inl e)
    with Cons.prems(2) req have "register_all env (Suc n) db reqs = (db', created)" by simp
    from Cons.IH[OF Cons.prems(1) this] show ?thesis .
  next
    case (Inr r)
    obtain db1 u where r: "r = (db1, u)" by (cases r) auto
    obtain db2 us where rest: "register_all env (Suc n) db1 reqs = (db2, us)"
      by (cases "register_all env (Suc n) db1 reqs") auto
    from Inr r have cu: "create_user env n db email name password = Inr (db1, u)" by simp
    from create_user_InrD[OF cu] Cons.prems(1)
    have u: "\<not> u_is_superadmin u" and db1: "users db1 \<noteq> []" by simp_all
    from Cons.prems(2) req cu rest have "created = u # us" by simp
    with u Cons.IH[OF db1 rest] show ?thesis by simp
  qed
qed

lemma register_all_flags:
  assumes "register_all env n db reqs = (db', created)"
  shows "\<forall>i<length created. u_is_superadmin (created ! i) \<longleftrightarrow> (i = 0 \<and> users db = [])"
  using assms
proof (induction reqs arbitrary: n db db' created)
  case Nil
  then show ?case by simp
next
  case (Cons req reqs)
  obtain email name password where req: "req = (email, name, password)"
    by (cases req) auto
  show ?case
  proof (cases "create_user env n db email name password")
    case (Inl e)
    with Cons.prems req have "register_all env (Suc n) db reqs = (db', created)" by simp
    from Cons.IH[OF this] show ?thesis .
  next
    case (Inr r)
    obtain db1 u where r: "r = (db1, u)" by (cases r) auto
    obtain db2 us where rest: "register_all env (Suc n) db1 reqs = (db2, us)"
      by (cases "register_all env (Suc n) db1 reqs") auto
    from Inr r have cu: "create_user env n db email name password = Inr (db1, u)" by simp
    from create_user_InrD[OF cu]
    have u: "u_is_superadmin u \<longleftrightarrow> users db = []" and db1: "users db1 \<noteq> []" by simp_all
    from Cons.prems req cu rest have created: "created = u # us" by simp
    from register_all_nonempty[OF db1 rest] have us: "\<forall>x\<in>set us. \<not> u_is_superadmin x" .
    show ?thesis
    proof (intro allI impI)
      fix i assume i: "i < length created"
      show "u_is_superadmin (created ! i) \<longleftrightarrow> (i = 0 \<and> users db = [])"
      proof (cases i)
        case 0
        with created u show ?thesis by simp
      next
        case (Suc j)
        with i created have "j < length us" by simp
        then have "us ! j \<in> set us" by simp
        with us have "\<not> u_is_superadmin (us ! j)" by blast
        with Suc created show ?thesis by simp
      qed
    qed
  qed
qed

text \<open>
  Claim C10. \<open>create_user\<close> sets the new user's \<open>is_superadmin\<close> flag to true if and only
  if the user table was empty when the user was created: the first registered user becomes
  a superadmin, every user created afterwards does not, and registration takes no
  argument that could ask for the flag.
\<close>

theorem create_user_superadmin_iff_first:
  "(\<forall>db' u. create_user env n db email name password = Inr (db', u) \<longrightarrow>
       (u_is_superadmin u \<longleftrightarrow> users db = []) \<and> users db' = users db @ [u]
       \<and> (\<forall>n' email' name' password' db'' u'.
             create_user env n' db' email' name' password' = Inr (db'', u') \<longrightarrow>
             \<not> u_is_superadmin u'))
   \<and> (users db = [] \<longrightarrow>
        (\<exists>db' u. create_user env n db email name password = Inr (db', u) \<and> u_is_superadmin u))
   \<and> (\<forall>reqs db' created. register_all env n db reqs = (db', created) \<longrightarrow>
        (\<forall>i<length created. u_is_superadmin (created ! i) \<longleftrightarrow> (i = 0 \<and> users db = [])))"
proof (intro conjI allI impI)
  fix db' u
  assume cu: "create_user env n db email name password = Inr (db', u)"
  from create_user_InrD[OF cu]
  show "u_is_superadmin u \<longleftrightarrow> users db = []" and "users db' = users db @ [u]" by simp_all
next
  fix db' u n' email' name' password' db'' u'
  assume cu: "create_user env n db email name password = Inr (db', u)"
    and cu': "create_user env n' db' email' name' password' = Inr (db'', u')"
  from create_user_InrD[OF cu] have "users db' \<noteq> []" by simp
  with create_user_InrD[OF cu'] show "\<not> u_is_superadmin u'" by simp
next
  assume "users db = []"
  then show "\<exists>db' u. create_user env n db email name password = Inr (db', u) \<and> u_is_superadmin u"
    by (rule create_user_empty)
next
  fix reqs db' created i
  assume "register_all env n db reqs = (db', created)" and "i < length created"
  with register_all_flags
  show "u_is_superadmin (created ! i) \<longleftrightarrow> (i = 0 \<and> users db = [])" by blast
qed

theorem create_user_superadmin_iff_first_witness:
  "users empty_db = []
   \<and> (\<exists>db' u. create_user example_env 0 empty_db ''a@example.test'' ''A'' ''pw'' = Inr (db', u)
        \<and> u_is_superadmin u)
   \<and> map u_is_superadmin (snd (register_all example_env 0 empty_db
        [(''a@example.test'', ''A'', ''pw''), (''b@example.test'', ''B'', ''pw'')])) = [True, False]"
proof -
  let ?reqs = "[(''a@example.test'', ''A'', ''pw''), (''b@example.test'', ''B'', ''pw'')]"
  let ?r = "register_all example_env 0 empty_db ?reqs"
  have h: "users empty_db = []" by (simp add: empty_db_def)
  note T = create_user_superadmin_iff_first[where env = example_env and n = 0 and db = empty_db
      and email = "''a@example.test''" and name = "''A''" and password = "''pw''"]
  from T h have c1: "\<exists>db' u. create_user example_env 0 empty_db ''a@example.test'' ''A'' ''pw''
      = Inr (db', u) \<and> u_is_superadmin u"
    by blast
  have len: "length (snd ?r) = 2"
    by (simp add: create_user_def Let_def empty_db_def example_env_def)
  have pair: "?r = (fst ?r, snd ?r)" by simp
  from T pair have flags: "\<forall>i<length (snd ?r). u_is_superadmin (snd ?r ! i) \<longleftrightarrow> (i = 0 \<and> users empty_db = [])"
    by blast
  from flags len h have "u_is_superadmin (snd ?r ! 0)" "\<not> u_is_superadmin (snd ?r ! 1)"
    by simp_all
  with len have c2: "map u_is_superadmin (snd ?r) = [True, False]"
    by (cases "snd ?r"; cases "tl (snd ?r)") auto
  from h c1 c2 show ?thesis by blast
qed

section \<open>Owner rows under member update and removal\<close>

lemma owner_lookup:
  assumes "m \<in> set (project_members db)" and "p_id project = pm_project_id m"
  shows "scalar_one_or_none
           (filter (\<lambda>x. pm_project_id x = p_id project \<and> pm_user_id x = pm_user_id m)
              (project_members db)) = Inl MultipleResultsFound
       \<or> scalar_one_or_none
           (filter (\<lambda>x. pm_project_id x = p_id project \<and> pm_user_id x = pm_user_id m)
              (project_members db)) = Inr (Some m)"
  by (rule scalar_one_or_none_member) (use assms in simp)

lemma update_member_owner_fails:
  assumes "m \<in> set (project_members db)" and "pm_role m = ''owner''"
    and "p_id project = pm_project_id m"
  shows "\<exists>e. update_member db project (pm_user_id m) role = Inl e"
  using owner_lookup[OF assms(1,3)] assms(2) by (auto simp: update_member_def)

lemma remove_member_owner_fails:
  assumes "m \<in> set (project_members db)" and "pm_role m = ''owner''"
    and "p_id project = pm_project_id m"
  shows "\<exists>e. remove_member db project (pm_user_id m) = Inl e"
  using owner_lookup[OF assms(1,3)] assms(2) by (auto simp: remove_member_def)

lemma update_member_InrD:
  assumes "update_member db project user_id role = Inr (db', m')"
  shows "\<exists>sel. sel \<in> set (project_members db) \<and> pm_project_id sel = p_id project
           \<and> pm_user_id sel = user_id \<and> pm_role sel \<noteq> ''owner''
           \<and> m' = sel\<lparr>pm_role := role\<rparr>
           \<and> db' = db\<lparr>project_members :=
                  map (\<lambda>x. if x = sel then sel\<lparr>pm_role := role\<rparr> else x) (project_members db)\<rparr>"
proof -
  let ?rows = "filter (\<lambda>x. pm_project_id x = p_id project \<and> pm_user_id x = user_id)
                 (project_members db)"
  from assms obtain sel where sel: "scalar_one_or_none ?rows = Inr (Some sel)"
    and role: "pm_role sel \<noteq> ''owner''"
    and res: "m' = sel\<lparr>pm_role := role\<rparr>"
      "db' = db\<lparr>project_members :=
                  map (\<lambda>x. if x = sel then sel\<lparr>pm_role := role\<rparr> else x) (project_members db)\<rparr>"
    by (auto simp: update_member_def Let_def split: sum.splits option.splits if_splits)
  from scalar_one_or_none_SomeD[OF sel] have "sel \<in> set ?rows" by simp
  then have "sel \<in> set (project_members db)" "pm_project_id sel = p_id project"
      "pm_user_id sel = user_id"
    by simp_all
  with role res show ?thesis by blast
qed

lemma remove_member_InrD:
  assumes "remove_member db project user_id = Inr (db', ok)"
  shows "\<exists>sel. sel \<in> set (project_members db) \<and> pm_project_id sel = p_id project
           \<and> pm_user_id sel = user_id \<and> pm_role sel \<noteq> ''owner''
           \<and> db' = db\<lparr>project_members := remove1 sel (project_members db)\<rparr>"
proof -
  let ?rows = "filter (\<lambda>x. pm_project_id x = p_id project \<and> pm_user_id x = user_id)
                 (project_members db)"
  from assms obtain sel where sel: "scalar_one_or_none ?rows = Inr (Some sel)"
    and role: "pm_role sel \<noteq> ''owner''"
    and res: "db' = db\<lparr>project_members := remove1 sel (project_members db)\<rparr>"
    by (auto simp: remove_member_def split: sum.splits option.splits if_splits)
  from scalar_one_or_none_SomeD[OF sel] have "sel \<in> set ?rows" by simp
  then have "sel \<in> set (project_members db)" "pm_project_id sel = p_id project"
      "pm_user_id sel = user_id"
    by simp_all
  with role res show ?thesis by blast
qed

lemma in_set_map_replace:
  "m \<in> set xs \<Longrightarrow> m \<noteq> sel \<Longrightarrow> m \<in> set (map (\<lambda>x. if x = sel then new else x) xs)"
  by (induction xs) auto

lemma apply_member_op_keeps_owner:
  assumes "m \<in> set (project_members db)" and "pm_role m = ''owner''"
  shows "m \<in> set (project_members (apply_member_op db mop))"
proof (cases mop)
  case (UpdateMember project user_id role)
  show ?thesis
  proof (cases "update_member db project user_id role")
    case (Inl e)
    with UpdateMember assms(1) show ?thesis by simp
  next
    case (Inr r)
    obtain db' m' where r: "r = (db', m')" by (cases r) auto
    from update_member_InrD[OF Inr[unfolded r]] obtain sel where
      sel: "pm_role sel \<noteq> ''owner''"
      and db': "db' = db\<lparr>project_members :=
                  map (\<lambda>x. if x = sel then sel\<lparr>pm_role := role\<rparr> else x) (project_members db)\<rparr>"
      by blast
    from sel assms(2) have "m \<noteq> sel" by auto
    with assms(1) have "m \<in> set (map (\<lambda>x. if x = sel then sel\<lparr>pm_role := role\<rparr> else x) (project_members db))"
      by (rule in_set_map_replace)
    with db' have "m \<in> set (project_members db')" by simp
    with UpdateMember Inr r show ?thesis by simp
  qed
next
  case (RemoveMember project user_id)
  show ?thesis
  proof (cases "remove_member db project user_id")
    case (Inl e)
    with RemoveMember assms(1) show ?thesis by simp
  next
    case (Inr r)
    obtain db' ok where r: "r = (db', ok)" by (cases r) auto
    from remove_member_InrD[OF Inr[unfolded r]] obtain sel where
      sel: "pm_role sel \<noteq> ''owner''"
      and db': "db' = db\<lparr>project_members := remove1 sel (project_members db)\<rparr>"
      by blast
    from sel assms(2) have "m \<noteq> sel" by auto
    with assms(1) db' have "m \<in> set (project_members db')" by simp
    with RemoveMember Inr r show ?thesis by simp
  qed
qed

lemma apply_member_ops_keeps_owner:
  assumes "m \<in> set (project_members db)" and "pm_role m = ''owner''"
  shows "m \<in> set (project_members (apply_member_ops db ops))"
  using assms(1) unfolding apply_member_ops_def
proof (induction ops arbitrary: db)
  case Nil
  then show ?case by simp
next
  case (Cons mop ops)
  from apply_member_op_keeps_owner[OF Cons.prems assms(2)]
  have "m \<in> set (project_members (apply_member_op db mop))" .
  from Cons.IH[OF this] show ?case by simp
qed

lemma update_member_owner_400:
  assumes "distinct (map (\<lambda>m. (pm_project_id m, pm_user_id m)) (project_members db))"
    and "m \<in> set (project_members db)" and "pm_role m = ''owner''"
    and "p_id project = pm_project_id m"
  shows "update_member db project (pm_user_id m) role
           = Inl (HTTPException 400 ''Cannot change owner role'')"
    and "remove_member db project (pm_user_id m)
           = Inl (HTTPException 400 ''Cannot remove project owner'')"
proof -
  have "scalar_one_or_none
          (filter (\<lambda>x. pm_project_id x = p_id project \<and> pm_user_id x = pm_user_id m)
             (project_members db)) = Inr (Some m)"
    by (rule scalar_one_or_none_unique[where f = "\<lambda>m. (pm_project_id m, pm_user_id m)"])
       (use assms in auto)
  with assms(3) show "update_member db project (pm_user_id m) role
           = Inl (HTTPException 400 ''Cannot change owner role'')"
    and "remove_member db project (pm_user_id m)
           = Inl (HTTPException 400 ''Cannot remove project owner'')"
    by (simp_all add: update_member_def remove_member_def)
qed

text \<open>
  Claim C7. For every project and every membership row whose role is \<open>owner\<close>,
  \<open>update_member\<close> and \<open>remove_member\<close> aimed at that row fail with an error (the 400
  of the owner guard when (project, user) pairs are unique), and under every sequence of
  member-update and member-remove operations the row stays in the table as it is: it
  keeps the role \<open>owner\<close> and is never deleted.
\<close>

theorem owner_row_immutable:
  assumes "m \<in> set (project_members db)" and "pm_role m = ''owner''"
  shows "(\<forall>project role. p_id project = pm_project_id m \<longrightarrow>
            (\<exists>e. update_member db project (pm_user_id m) role = Inl e)
          \<and> (\<exists>e. remove_member db project (pm_user_id m) = Inl e))
    \<and> (distinct (map (\<lambda>m. (pm_project_id m, pm_user_id m)) (project_members db)) \<longrightarrow>
        (\<forall>project role. p_id project = pm_project_id m \<longrightarrow>
            update_member db project (pm_user_id m) role
              = Inl (HTTPException 400 ''Cannot change owner role'')
          \<and> remove_member db project (pm_user_id m)
              = Inl (HTTPException 400 ''Cannot remove project owner'')))
    \<and> (\<forall>ops. m \<in> set (project_members (apply_member_ops db ops)))"
proof (intro conjI allI impI)
  fix project :: project and role
  assume "p_id project = pm_project_id m"
  then show "\<exists>e. update_member db project (pm_user_id m) role = Inl e"
    and "\<exists>e. remove_member db project (pm_user_id m) = Inl e"
    using update_member_owner_fails[OF assms] remove_member_owner_fails[OF assms] by simp_all
next
  fix project :: project and role
  assume "distinct (map (\<lambda>m. (pm_project_id m, pm_user_id m)) (project_members db))"
    and "p_id project = pm_project_id m"
  then show "update_member db project (pm_user_id m) role
              = Inl (HTTPException 400 ''Cannot change owner role'')"
    and "remove_member db project (pm_user_id m)
              = Inl (HTTPException 400 ''Cannot remove project owner'')"
    using update_member_owner_400[OF _ assms] by simp_all
next
  fix ops
  show "m \<in> set (project_members (apply_member_ops db ops))"
    by (rule apply_member_ops_keeps_owner[OF assms])
qed

theorem owner_row_immutable_witness:
  "owner_row \<in> set (project_members example_db) \<and> pm_role owner_row = ''owner''
   \<and> update_member example_db demo ''u1'' ''viewer''
       = Inl (HTTPException 400 ''Cannot change owner role'')
   \<and> remove_member example_db demo ''u1''
       = Inl (HTTPException 400 ''Cannot remove project owner'')
   \<and> owner_row \<in> set (project_members (apply_member_ops example_db
        [UpdateMember demo ''u1'' ''viewer'', RemoveMember demo ''u2'', RemoveMember demo ''u1'']))"
proof -
  have h1: "owner_row \<in> set (project_members example_db)" by (simp add: example_db_def)
  have h2: "pm_role owner_row = ''owner''" by (simp add: owner_row_def)
  have d: "distinct (map (\<lambda>m. (pm_project_id m, pm_user_id m)) (project_members example_db))"
    by (simp add: example_db_def owner_row_def viewer_row_def)
  have p: "p_id demo = pm_project_id owner_row" "pm_user_id owner_row = ''u1''"
    by (simp_all add: demo_def owner_row_def)
  note T = owner_row_immutable[OF h1 h2]
  from T d have guard: "\<forall>project role. p_id project = pm_project_id owner_row \<longrightarrow>
            update_member example_db project (pm_user_id owner_row) role
              = Inl (HTTPException 400 ''Cannot change owner role'')
          \<and> remove_member example_db project (pm_user_id owner_row)
              = Inl (HTTPException 400 ''Cannot remove project owner'')"
    by simp
  from guard p(1) have "update_member example_db demo (pm_user_id owner_row) ''viewer''
       = Inl (HTTPException 400 ''Cannot change owner role'')"
    by blast
  with p(2) have c1: "update_member example_db demo ''u1'' ''viewer''
       = Inl (HTTPException 400 ''Cannot change owner role'')"
    by simp
  from guard p(1) have "remove_member example_db demo (pm_user_id owner_row)
       = Inl (HTTPException 400 ''Cannot remove project owner'')"
    by blast
  with p(2) have c2: "remove_member example_db demo ''u1''
       = Inl (HTTPException 400 ''Cannot remove project owner'')"
    by simp
  from T have c3: "owner_row \<in> set (project_members (apply_member_ops example_db
        [UpdateMember demo ''u1'' ''viewer'', RemoveMember demo ''u2'', RemoveMember demo ''u1'']))"
    by simp
  from h1 h2 c1 c2 c3 show ?thesis by simp
qed

section \<open>Membership pairs stay unique\<close>

text \<open>
  The uniqueness of (project, user) pairs assumed of the membership table is kept by
  the three membership mutations, run one after another.
\<close>

lemma distinct_map_remove1:
  "distinct (map f xs) \<Longrightarrow> distinct (map f (remove1 x xs))"
proof (induction xs)
  case Nil
  then show ?case by simp
next
  case (Cons a xs)
  have "f ` set (remove1 x xs) \<subseteq> f ` set xs"
    by (rule image_mono) (rule set_remove1_subset)
  with Cons show ?case by auto
qed

lemma add_member_InrD_lookup:
  assumes "add_member env n db project email role invited_by = Inr (db', m)"
  shows "scalar_one_or_none
        (filter (\<lambda>x. pm_project_id x = pm_project_id m \<and> pm_user_id x = pm_user_id m)
           (project_members db)) = Inr None
      \<and> project_members db' = project_members db @ [m]"
  using assms
  by (auto simp: add_member_def Let_def split: sum.splits option.splits)

lemma add_member_keeps_pairs_unique:
  assumes "distinct (map (\<lambda>m. (pm_project_id m, pm_user_id m)) (project_members db))"
    and "add_member env n db project email role invited_by = Inr (db', m)"
  shows "distinct (map (\<lambda>m. (pm_project_id m, pm_user_id m)) (project_members db'))"
proof -
  from add_member_InrD_lookup[OF assms(2)] have
    none: "scalar_one_or_none
             (filter (\<lambda>x. pm_project_id x = pm_project_id m \<and> pm_user_id x = pm_user_id m)
                (project_members db)) = Inr None"
    and db': "project_members db' = project_members db @ [m]"
    by simp_all
  from scalar_one_or_none_NoneD[OF none]
  have "\<forall>x\<in>set (project_members db).
          \<not> (pm_project_id x = pm_project_id m \<and> pm_user_id x = pm_user_id m)"
    by (simp add: filter_empty_conv)
  then have "(pm_project_id m, pm_user_id m)
      \<notin> set (map (\<lambda>m. (pm_project_id m, pm_user_id m)) (project_members db))"
    by auto
  with assms(1) db' show ?thesis by simp
qed

lemma update_member_keeps_pairs_unique:
  assumes "distinct (map (\<lambda>m. (pm_project_id m, pm_user_id m)) (project_members db))"
    and "update_member db project user_id role = Inr (db', m)"
  shows "distinct (map (\<lambda>m. (pm_project_id m, pm_user_id m)) (project_members db'))"
proof -
  from update_member_InrD[OF assms(2)] obtain sel where
    db': "db' = db\<lparr>project_members :=
            map (\<lambda>x. if x = sel then sel\<lparr>pm_role := role\<rparr> else x) (project_members db)\<rparr>"
    by blast
  have "map (\<lambda>m. (pm_project_id m, pm_user_id m))
          (map (\<lambda>x. if x = sel then sel\<lparr>pm_role := role\<rparr> else x) xs)
      = map (\<lambda>m. (pm_project_id m, pm_user_id m)) xs" for xs
    by (induction xs) auto
  with assms(1) db' show ?thesis by (simp del: map_map)
qed

lemma remove_member_keeps_pairs_unique:
  assumes "distinct (map (\<lambda>m. (pm_project_id m, pm_user_id m)) (project_members db))"
    and "remove_member db project user_id = Inr (db', ok)"
  shows "distinct (map (\<lambda>m. (pm_project_id m, pm_user_id m)) (project_members db'))"
proof -
  from remove_member_InrD[OF assms(2)] obtain sel where
    "db' = db\<lparr>project_members := remove1 sel (project_members db)\<rparr>"
    by blast
  with distinct_map_remove1[OF assms(1), of sel] show ?thesis by simp
qed

section \<open>Role strings in membership mutations\<close>

lemma add_member_InrD:
  assumes "add_member env n db project email role invited_by = Inr (db', m)"
  shows "pm_role m = role \<and> project_members db' = project_members db @ [m]"
  using assms
  by (auto simp: add_member_def Let_def split: sum.splits option.splits)

lemma add_member_role_independent:
  "isl (add_member env n db project email role invited_by)
     = isl (add_member env n db project email role' invited_by)"
  by (simp add: add_member_def Let_def split: sum.splits option.splits)

lemma update_member_role_independent:
  "isl (update_member db project user_id role) = isl (update_member db project user_id role')"
  by (simp add: update_member_def Let_def split: sum.splits option.splits)

lemma update_member_stores_role:
  assumes "update_member db project user_id role = Inr (db', m')"
  shows "pm_role m' = role \<and> m' \<in> set (project_members db')"
proof -
  from update_member_InrD[OF assms] obtain sel where
    sel: "sel \<in> set (project_members db)"
    and m': "m' = sel\<lparr>pm_role := role\<rparr>"
    and db': "db' = db\<lparr>project_members :=
                  map (\<lambda>x. if x = sel then sel\<lparr>pm_role := role\<rparr> else x) (project_members db)\<rparr>"
    by blast
  from sel have "sel\<lparr>pm_role := role\<rparr>
      \<in> set (map (\<lambda>x. if x = sel then sel\<lparr>pm_role := role\<rparr> else x) (project_members db))"
    by (induction "project_members db") auto
  with m' db' show ?thesis by simp
qed

text \<open>
  Neither mutation looks at the role it is given: whether the operation is accepted does
  not depend on the role string, and an accepted operation stores the string as it is.
\<close>

lemma member_role_stored_unvalidated:
  "(isl (add_member env n db project email role invited_by)
      \<longleftrightarrow> isl (add_member env n db project email role' invited_by))
   \<and> (\<forall>db' m. add_member env n db project email role invited_by = Inr (db', m) \<longrightarrow>
         pm_role m = role \<and> project_members db' = project_members db @ [m])
   \<and> (isl (update_member db project user_id role)
      \<longleftrightarrow> isl (update_member db project user_id role'))
   \<and> (\<forall>db' m. update_member db project user_id role = Inr (db', m) \<longrightarrow>
         pm_role m = role \<and> m \<in> set (project_members db'))"
proof (intro conjI allI impI)
  show "isl (add_member env n db project email role invited_by)
      \<longleftrightarrow> isl (add_member env n db project email role' invited_by)"
    by (rule add_member_role_independent)
  show "isl (update_member db project user_id role)
      \<longleftrightarrow> isl (update_member db project user_id role')"
    by (rule update_member_role_independent)
next
  fix db' m
  assume "add_member env n db project email role invited_by = Inr (db', m)"
  from add_member_InrD[OF this]
  show "pm_role m = role" and "project_members db' = project_members db @ [m]" by simp_all
next
  fix db' m
  assume "update_member db project user_id role = Inr (db', m)"
  from update_member_stores_role[OF this]
  show "pm_role m = role" and "m \<in> set (project_members db')" by simp_all
qed

text \<open>
  Claim C8. A membership mutation (\<open>add_member\<close>, \<open>update_member\<close>) is to accept and
  persist a role string only if it is one of \<open>owner\<close>, \<open>admin\<close>, \<open>member\<close>, \<open>viewer\<close>,
  the values that the comment on the \<open>role\<close> column in app/models.py and
  \<open>ROLE_HIERARCHY\<close> list, and to reject any other string without creating or changing a
  row. The code does otherwise: in the example installation \<open>add_member\<close> creates a
  membership for Carol with the role \<open>superuser\<close>, and \<open>update_member\<close> changes Bob's
  role from \<open>viewer\<close> to \<open>superuser\<close>; both return the row, and \<open>superuser\<close> is none of
  the four role names.
\<close>

theorem member_role_superuser_accepted:
  "''superuser'' \<notin> set valid_roles
   \<and> add_member example_env 0 example_db demo ''carol@example.test'' ''superuser'' ''u1''
       = Inr (example_db\<lparr>project_members :=
                 [owner_row, viewer_row,
                  \<lparr>pm_id = ''id0'', pm_project_id = ''p1'', pm_user_id = ''u3'',
                    pm_role = ''superuser'', pm_invited_by = Some ''u1''\<rparr>]\<rparr>,
              \<lparr>pm_id = ''id0'', pm_project_id = ''p1'', pm_user_id = ''u3'',
                pm_role = ''superuser'', pm_invited_by = Some ''u1''\<rparr>)
   \<and> update_member example_db demo ''u2'' ''superuser''
       = Inr (example_db\<lparr>project_members := [owner_row, viewer_row\<lparr>pm_role := ''superuser''\<rparr>]\<rparr>,
              viewer_row\<lparr>pm_role := ''superuser''\<rparr>)"
  by (simp add: valid_roles_def add_member_def update_member_def Let_def example_db_def
      example_env_def demo_def alice_def bob_def carol_def owner_row_def viewer_row_def)

section \<open>One delivery attempt\<close>

lemma deliver_eq:
  "deliver env n db webhook event payload =
    (db\<lparr>webhooks :=
          map (\<lambda>w. if w = webhook
                 then webhook\<lparr>wh_last_triggered_at := Some (utcnow env (2 * n + 1)),
                        wh_last_status_code := d_status_code (attempt_row env n webhook event payload)\<rparr>
                 else w) (webhooks db),
        webhook_deliveries := webhook_deliveries db @ [attempt_row env n webhook event payload]\<rparr>,
     attempt_row env n webhook event payload)"
proof (cases "delivery_post env n webhook event payload")
  case (Inl exc)
  then show ?thesis
    by (simp add: deliver_def attempt_row_def Let_def delivery_post_def)
next
  case (Inr resp)
  then show ?thesis
    by (simp add: deliver_def attempt_row_def Let_def delivery_post_def)
qed

lemma attempt_row_fields:
  "d_attempt_count (attempt_row env n webhook event payload) = 1"
  "d_webhook_id (attempt_row env n webhook event payload) = wh_id webhook"
  "d_event (attempt_row env n webhook event payload) = event"
  "d_payload (attempt_row env n webhook event payload) = payload"
  by (simp_all add: attempt_row_def split: sum.splits)

lemma attempt_row_delivered_iff:
  "d_delivered_at (attempt_row env n webhook event payload) \<noteq> None \<longleftrightarrow>
    (\<exists>s. d_status_code (attempt_row env n webhook event payload) = Some s \<and> 200 \<le> s \<and> s < 300)"
  by (simp add: attempt_row_def split: sum.splits)

lemma attempt_row_transport_failure:
  assumes "delivery_post env n webhook event payload = Inl exc"
  shows "d_status_code (attempt_row env n webhook event payload) = None"
    and "d_response_body (attempt_row env n webhook event payload) = Some (take 2000 exc)"
    and "d_delivered_at (attempt_row env n webhook event payload) = None"
  using assms by (simp_all add: attempt_row_def)

lemma attempt_row_response:
  assumes "delivery_post env n webhook event payload = Inr resp"
  shows "d_status_code (attempt_row env n webhook event payload) = Some (resp_status_code resp)"
    and "d_response_body (attempt_row env n webhook event payload)
           = (if resp_text resp \<noteq> [] then Some (take 2000 (resp_text resp)) else None)"
    and "d_delivered_at (attempt_row env n webhook event payload) \<noteq> None
           \<longleftrightarrow> 200 \<le> resp_status_code resp \<and> resp_status_code resp < 300"
  using assms by (simp_all add: attempt_row_def)

lemma deliver_each_snd:
  "snd (deliver_each env n db matching event payload) = attempt_rows env n matching event payload"
  by (induction matching arbitrary: n db) (simp_all add: deliver_eq split_beta)

lemma deliver_each_deliveries:
  "webhook_deliveries (fst (deliver_each env n db matching event payload))
     = webhook_deliveries db @ attempt_rows env n matching event payload"
  by (induction matching arbitrary: n db) (simp_all add: deliver_eq split_beta)

lemma length_attempt_rows [simp]:
  "length (attempt_rows env n whs event payload) = length whs"
  by (induction whs arbitrary: n) simp_all

lemma nth_attempt_rows:
  "i < length whs \<Longrightarrow>
    attempt_rows env n whs event payload ! i = attempt_row env (n + i) (whs ! i) event payload"
proof (induction whs arbitrary: n i)
  case Nil
  then show ?case by simp
next
  case (Cons wh whs)
  show ?case
  proof (cases i)
    case 0
    then show ?thesis by simp
  next
    case (Suc j)
    with Cons.prems have "j < length whs" by simp
    from Cons.IH[OF this, of "Suc n"] Suc show ?thesis by simp
  qed
qed

lemma attempt_rows_webhook_ids:
  "map d_webhook_id (attempt_rows env n whs event payload) = map wh_id whs"
  by (induction whs arbitrary: n) (simp_all add: attempt_row_fields)

lemma attempt_rows_all:
  assumes "d \<in> set (attempt_rows env n whs event payload)"
  shows "\<exists>i<length whs. d = attempt_row env (n + i) (whs ! i) event payload"
proof -
  from assms obtain i where "i < length (attempt_rows env n whs event payload)"
    "attempt_rows env n whs event payload ! i = d"
    by (auto simp: in_set_conv_nth)
  then show ?thesis using nth_attempt_rows[of i whs env n event payload] by auto
qed

lemma fire_webhook_matching:
  "filter (\<lambda>w. event \<in> set (wh_events w) \<or> ''*'' \<in> set (wh_events w))
          (filter (\<lambda>w. wh_project_id w = project_id \<and> wh_is_active w) (webhooks db))
      = filter (\<lambda>w. wh_project_id w = project_id \<and> wh_is_active w
                     \<and> (event \<in> set (wh_events w) \<or> ''*'' \<in> set (wh_events w)))
           (webhooks db)"
  unfolding filter_filter by (rule filter_cong) auto

lemma fire_webhook_snd:
  "snd (fire_webhook env n db project_id event payload) =
      attempt_rows env n
        (filter (\<lambda>w. wh_project_id w = project_id \<and> wh_is_active w
                     \<and> (event \<in> set (wh_events w) \<or> ''*'' \<in> set (wh_events w)))
           (webhooks db)) event payload"
  by (simp only: fire_webhook_def Let_def fire_webhook_matching deliver_each_snd)

lemma fire_webhook_deliveries:
  "webhook_deliveries (fst (fire_webhook env n db project_id event payload)) =
      webhook_deliveries db @ snd (fire_webhook env n db project_id event payload)"
  by (simp only: fire_webhook_def Let_def deliver_each_snd deliver_each_deliveries)

lemma fire_webhook_no_match:
  assumes "filter (\<lambda>w. wh_project_id w = project_id \<and> wh_is_active w
                     \<and> (event \<in> set (wh_events w) \<or> ''*'' \<in> set (wh_events w)))
           (webhooks db) = []"
  shows "fire_webhook env n db project_id event payload = (db, [])"
  using assms by (simp only: fire_webhook_def Let_def fire_webhook_matching deliver_each.simps)

lemma lookup_by_id:
  assumes "distinct (map wh_id whs)"
  shows "scalar_one_or_none (filter (\<lambda>w. wh_id w = k) whs) = Inr (find (\<lambda>w. wh_id w = k) whs)"
proof (cases "find (\<lambda>w. wh_id w = k) whs")
  case None
  then have "\<not> (\<exists>w\<in>set whs. wh_id w = k)" by (simp add: find_None_iff)
  from scalar_one_or_none_empty[OF this] None show ?thesis by simp
next
  case (Some w)
  then have w: "w \<in> set whs" "wh_id w = k"
    by (auto simp: find_Some_iff in_set_conv_nth)
  have "scalar_one_or_none (filter (\<lambda>w. wh_id w = k) whs) = Inr (Some w)"
    by (rule scalar_one_or_none_unique[where f = wh_id]) (use assms w in auto)
  with Some show ?thesis by simp
qed

lemma test_webhook_found:
  assumes "distinct (map wh_id (webhooks db))" and "w \<in> set (webhooks db)"
  shows "test_webhook env n db (wh_id w) =
    Inr (fst (deliver env n db w ''webhook.test''
               (JDict [(''event'', JStr ''webhook.test''), (''webhook_id'', JStr (wh_id w))])),
         Some (attempt_row env n w ''webhook.test''
               (JDict [(''event'', JStr ''webhook.test''), (''webhook_id'', JStr (wh_id w))])))"
proof -
  have "scalar_one_or_none (filter (\<lambda>x. wh_id x = wh_id w) (webhooks db)) = Inr (Some w)"
    by (rule scalar_one_or_none_unique[where f = wh_id]) (use assms in auto)
  then show ?thesis
    by (simp add: test_webhook_def get_webhook_def Let_def deliver_eq)
qed

subsection \<open>The example installation\<close>

lemma hook_db_matching_created:
  "filter (\<lambda>w. wh_project_id w = ''p1'' \<and> wh_is_active w
              \<and> (''memory.created'' \<in> set (wh_events w) \<or> ''*'' \<in> set (wh_events w)))
     (webhooks hook_db) = [hook_created, hook_all]"
  by (simp add: hook_db_def hook_created_def hook_all_def hook_deleted_def hook_off_def)

lemma example_env_posts:
  "delivery_post example_env 0 wh event payload = Inr \<lparr>resp_status_code = 200, resp_text = ''ok''\<rparr>"
  "delivery_post example_env (Suc 0) wh event payload = Inr \<lparr>resp_status_code = 500, resp_text = ''''\<rparr>"
  "delivery_post example_env (Suc (Suc k)) wh event payload = Inl ''timed out''"
  by (simp_all add: delivery_post_def post_event_def example_env_def)

lemma example_env_clock:
  "utcnow example_env k = 1000 + int k"
  by (simp add: example_env_def)

lemma example_fire_created:
  "snd (fire_webhook example_env 0 hook_db ''p1'' ''memory.created'' memory_payload)
     = [attempt_row example_env 0 hook_created ''memory.created'' memory_payload,
        attempt_row example_env (Suc 0) hook_all ''memory.created'' memory_payload]"
  by (simp add: fire_webhook_snd hook_db_matching_created)

section \<open>What a delivery attempt records\<close>

text \<open>
  Claim C2. Every delivery attempt, made by \<open>fire_webhook\<close> or by the test path, adds
  exactly one new delivery row; the row has \<open>attempt_count\<close> 1, and its \<open>delivered_at\<close>
  is set if and only if the status code recorded in it lies in [200,300). After a
  transport failure the row has no status code and \<open>delivered_at\<close> is unset.
\<close>

theorem delivery_attempt_records_one_row:
  "(case deliver env n db webhook event payload of (db', d) \<Rightarrow>
      webhook_deliveries db' = webhook_deliveries db @ [d]
      \<and> d_attempt_count d = 1
      \<and> (d_delivered_at d \<noteq> None \<longleftrightarrow> (\<exists>s. d_status_code d = Some s \<and> 200 \<le> s \<and> s < 300))
      \<and> (\<forall>resp. delivery_post env n webhook event payload = Inr resp \<longrightarrow>
            d_status_code d = Some (resp_status_code resp))
      \<and> (\<forall>exc. delivery_post env n webhook event payload = Inl exc \<longrightarrow>
            d_status_code d = None \<and> d_delivered_at d = None))
   \<and> (case fire_webhook env n db project_id event payload of (db', ds) \<Rightarrow>
        webhook_deliveries db' = webhook_deliveries db @ ds
        \<and> length ds = length (filter (\<lambda>w. wh_project_id w = project_id \<and> wh_is_active w
              \<and> (event \<in> set (wh_events w) \<or> ''*'' \<in> set (wh_events w))) (webhooks db))
        \<and> (\<forall>d\<in>set ds. d_attempt_count d = 1
              \<and> (d_delivered_at d \<noteq> None \<longleftrightarrow>
                   (\<exists>s. d_status_code d = Some s \<and> 200 \<le> s \<and> s < 300))))
   \<and> (\<forall>db' d. test_webhook env n db webhook_id = Inr (db', Some d) \<longrightarrow>
        webhook_deliveries db' = webhook_deliveries db @ [d]
        \<and> d_attempt_count d = 1 \<and> d_event d = ''webhook.test''
        \<and> (d_delivered_at d \<noteq> None \<longleftrightarrow> (\<exists>s. d_status_code d = Some s \<and> 200 \<le> s \<and> s < 300)))
   \<and> (distinct (map wh_id (webhooks db)) \<longrightarrow>
        (\<forall>w\<in>set (webhooks db). \<exists>db' d. test_webhook env n db (wh_id w) = Inr (db', Some d)))"
proof (intro conjI)
  show "case deliver env n db webhook event payload of (db', d) \<Rightarrow>
      webhook_deliveries db' = webhook_deliveries db @ [d]
      \<and> d_attempt_count d = 1
      \<and> (d_delivered_at d \<noteq> None \<longleftrightarrow> (\<exists>s. d_status_code d = Some s \<and> 200 \<le> s \<and> s < 300))
      \<and> (\<forall>resp. delivery_post env n webhook event payload = Inr resp \<longrightarrow>
            d_status_code d = Some (resp_status_code resp))
      \<and> (\<forall>exc. delivery_post env n webhook event payload = Inl exc \<longrightarrow>
            d_status_code d = None \<and> d_delivered_at d = None)"
    using attempt_row_delivered_iff[of env n webhook event payload]
      attempt_row_response(1)[of env n webhook event payload]
      attempt_row_transport_failure(1,3)[of env n webhook event payload]
    by (auto simp: deliver_eq attempt_row_fields)
next
  let ?matching = "filter (\<lambda>w. wh_project_id w = project_id \<and> wh_is_active w
              \<and> (event \<in> set (wh_events w) \<or> ''*'' \<in> set (wh_events w))) (webhooks db)"
  have rows: "d_attempt_count d = 1
      \<and> (d_delivered_at d \<noteq> None \<longleftrightarrow> (\<exists>s. d_status_code d = Some s \<and> 200 \<le> s \<and> s < 300))"
    if "d \<in> set (attempt_rows env n ?matching event payload)" for d
  proof -
    from attempt_rows_all[OF that] obtain i where
      "d = attempt_row env (n + i) (?matching ! i) event payload" by blast
    then show ?thesis
      using attempt_row_delivered_iff[of env "n + i" "?matching ! i" event payload]
      by (simp add: attempt_row_fields)
  qed
  show "case fire_webhook env n db project_id event payload of (db', ds) \<Rightarrow>
        webhook_deliveries db' = webhook_deliveries db @ ds
        \<and> length ds = length ?matching
        \<and> (\<forall>d\<in>set ds. d_attempt_count d = 1
              \<and> (d_delivered_at d \<noteq> None \<longleftrightarrow>
                   (\<exists>s. d_status_code d = Some s \<and> 200 \<le> s \<and> s < 300)))"
    using rows
    by (simp add: split_beta fire_webhook_deliveries fire_webhook_snd)
next
  show "\<forall>db' d. test_webhook env n db webhook_id = Inr (db', Some d) \<longrightarrow>
        webhook_deliveries db' = webhook_deliveries db @ [d]
        \<and> d_attempt_count d = 1 \<and> d_event d = ''webhook.test''
        \<and> (d_delivered_at d \<noteq> None \<longleftrightarrow> (\<exists>s. d_status_code d = Some s \<and> 200 \<le> s \<and> s < 300))"
  proof (intro allI impI)
    fix db' d
    assume t: "test_webhook env n db webhook_id = Inr (db', Some d)"
    then obtain webhook where
      "deliver env n db webhook ''webhook.test''
         (JDict [(''event'', JStr ''webhook.test''), (''webhook_id'', JStr (wh_id webhook))])
        = (db', d)"
      by (auto simp: test_webhook_def Let_def split: sum.splits option.splits prod.splits)
    then show "webhook_deliveries db' = webhook_deliveries db @ [d]
        \<and> d_attempt_count d = 1 \<and> d_event d = ''webhook.test''
        \<and> (d_delivered_at d \<noteq> None \<longleftrightarrow> (\<exists>s. d_status_code d = Some s \<and> 200 \<le> s \<and> s < 300))"
      using attempt_row_delivered_iff[of env n webhook "''webhook.test''"]
      by (auto simp: deliver_eq attempt_row_fields)
  qed
next
  show "distinct (map wh_id (webhooks db)) \<longrightarrow>
        (\<forall>w\<in>set (webhooks db). \<exists>db' d. test_webhook env n db (wh_id w) = Inr (db', Some d))"
  proof (intro impI ballI)
    fix w assume "distinct (map wh_id (webhooks db))" and "w \<in> set (webhooks db)"
    from test_webhook_found[OF this, of env n]
    show "\<exists>db' d. test_webhook env n db (wh_id w) = Inr (db', Some d)" by blast
  qed
qed

theorem delivery_attempt_records_one_row_witness:
  "length (snd (fire_webhook example_env 0 hook_db ''p1'' ''memory.created'' memory_payload)) = 2
   \<and> webhook_deliveries (fst (fire_webhook example_env 0 hook_db ''p1'' ''memory.created'' memory_payload))
       = snd (fire_webhook example_env 0 hook_db ''p1'' ''memory.created'' memory_payload)
   \<and> map d_attempt_count
        (snd (fire_webhook example_env 0 hook_db ''p1'' ''memory.created'' memory_payload)) = [1, 1]
   \<and> map d_status_code
        (snd (fire_webhook example_env 0 hook_db ''p1'' ''memory.created'' memory_payload))
       = [Some 200, Some 500]
   \<and> map d_delivered_at
        (snd (fire_webhook example_env 0 hook_db ''p1'' ''memory.created'' memory_payload))
       = [Some 1000, None]
   \<and> (\<exists>db' d. test_webhook example_env 0 hook_db ''w1'' = Inr (db', Some d)
         \<and> d_attempt_count d = 1 \<and> d_event d = ''webhook.test''
         \<and> webhook_deliveries db' = [d])"
proof -
  let ?F = "fire_webhook example_env 0 hook_db ''p1'' ''memory.created'' memory_payload"
  note T = delivery_attempt_records_one_row[where env = example_env and n = 0 and db = hook_db
      and project_id = "''p1''" and event = "''memory.created''" and payload = memory_payload]
  from T have F: "webhook_deliveries (fst ?F) = webhook_deliveries hook_db @ snd ?F"
      "length (snd ?F) = length (filter (\<lambda>w. wh_project_id w = ''p1'' \<and> wh_is_active w
              \<and> (''memory.created'' \<in> set (wh_events w) \<or> ''*'' \<in> set (wh_events w)))
            (webhooks hook_db))"
      "\<forall>d\<in>set (snd ?F). d_attempt_count d = 1"
    by (simp_all add: split_beta)
  from F(2) have c1: "length (snd ?F) = 2" by (simp add: hook_db_matching_created)
  from F(1) have c2: "webhook_deliveries (fst ?F) = snd ?F"
    by (simp add: hook_db_def example_db_def)
  from F(3) have c3: "map d_attempt_count (snd ?F) = [1, 1]"
    by (simp add: example_fire_created)
  have c4: "map d_status_code (snd ?F) = [Some 200, Some 500]"
    by (simp add: example_fire_created attempt_row_def example_env_posts)
  have c5: "map d_delivered_at (snd ?F) = [Some 1000, None]"
    by (simp add: example_fire_created attempt_row_def example_env_posts example_env_clock)
  have ids: "distinct (map wh_id (webhooks hook_db))" "hook_created \<in> set (webhooks hook_db)"
      "wh_id hook_created = ''w1''"
    by (simp_all add: hook_db_def hook_created_def hook_all_def hook_deleted_def hook_off_def)
  note T4 = T[THEN conjunct2, THEN conjunct2, THEN conjunct2, rule_format, OF ids(1,2)]
  from T4 obtain db' d where
    t: "test_webhook example_env 0 hook_db (wh_id hook_created) = Inr (db', Some d)"
    by blast
  with ids(3) have t': "test_webhook example_env 0 hook_db ''w1'' = Inr (db', Some d)" by simp
  note T3 = T[where webhook_id = "''w1''", THEN conjunct2, THEN conjunct2, THEN conjunct1,
      rule_format, OF t']
  from T3 have
    "webhook_deliveries db' = webhook_deliveries hook_db @ [d]"
    "d_attempt_count d = 1" "d_event d = ''webhook.test''"
    by simp_all
  then have c6: "\<exists>db' d. test_webhook example_env 0 hook_db ''w1'' = Inr (db', Some d)
         \<and> d_attempt_count d = 1 \<and> d_event d = ''webhook.test''
         \<and> webhook_deliveries db' = [d]"
    using t' by (auto simp: hook_db_def example_db_def)
  from c1 c2 c3 c4 c5 c6 show ?thesis by simp
qed

section \<open>Transport failures\<close>

text \<open>
  Claim C3. When a webhook POST fails in transport (timeout, DNS error, refused
  connection), the failure is caught and recorded as a failed delivery attempt: the row
  has no status code, the error string (cut at 2000 characters) as response body and
  \<open>delivered_at\<close> unset. The error does not reach the caller of \<open>fire_webhook\<close>:
  whatever the outcome of each POST, \<open>fire_webhook\<close> returns, with one delivery per
  matching webhook, in order.
\<close>

theorem fire_webhook_absorbs_transport_failures:
  "(\<forall>exc. delivery_post env n webhook event payload = Inl exc \<longrightarrow>
      (case deliver env n db webhook event payload of (db', d) \<Rightarrow>
         d_status_code d = None \<and> d_response_body d = Some (take 2000 exc)
         \<and> d_delivered_at d = None \<and> d_attempt_count d = 1
         \<and> d \<in> set (webhook_deliveries db')))
   \<and> (let matching = filter (\<lambda>w. wh_project_id w = project_id \<and> wh_is_active w
              \<and> (event \<in> set (wh_events w) \<or> ''*'' \<in> set (wh_events w))) (webhooks db)
       in case fire_webhook env n db project_id event payload of (db', ds) \<Rightarrow>
         length ds = length matching
         \<and> (\<forall>i<length matching.
               d_webhook_id (ds ! i) = wh_id (matching ! i)
               \<and> ds ! i \<in> set (webhook_deliveries db')
               \<and> (\<forall>exc. delivery_post env (n + i) (matching ! i) event payload = Inl exc \<longrightarrow>
                     d_status_code (ds ! i) = None
                     \<and> d_response_body (ds ! i) = Some (take 2000 exc)
                     \<and> d_delivered_at (ds ! i) = None
                     \<and> d_attempt_count (ds ! i) = 1)))"
proof (intro conjI)
  show "\<forall>exc. delivery_post env n webhook event payload = Inl exc \<longrightarrow>
      (case deliver env n db webhook event payload of (db', d) \<Rightarrow>
         d_status_code d = None \<and> d_response_body d = Some (take 2000 exc)
         \<and> d_delivered_at d = None \<and> d_attempt_count d = 1
         \<and> d \<in> set (webhook_deliveries db'))"
    by (simp add: deliver_eq attempt_row_fields attempt_row_transport_failure)
next
  define matching where "matching = filter (\<lambda>w. wh_project_id w = project_id \<and> wh_is_active w
              \<and> (event \<in> set (wh_events w) \<or> ''*'' \<in> set (wh_events w))) (webhooks db)"
  define F where "F = fire_webhook env n db project_id event payload"
  have ds: "snd F = attempt_rows env n matching event payload"
    by (simp add: F_def matching_def fire_webhook_snd)
  have db': "webhook_deliveries (fst F) = webhook_deliveries db @ snd F"
    by (simp add: F_def fire_webhook_deliveries)
  have len: "length (snd F) = length matching" by (simp add: ds)
  have row: "d_webhook_id (snd F ! i) = wh_id (matching ! i)
      \<and> snd F ! i \<in> set (webhook_deliveries (fst F))
      \<and> (\<forall>exc. delivery_post env (n + i) (matching ! i) event payload = Inl exc \<longrightarrow>
            d_status_code (snd F ! i) = None
            \<and> d_response_body (snd F ! i) = Some (take 2000 exc)
            \<and> d_delivered_at (snd F ! i) = None
            \<and> d_attempt_count (snd F ! i) = 1)"
    if i: "i < length matching" for i
  proof -
    have nth: "snd F ! i = attempt_row env (n + i) (matching ! i) event payload"
      by (simp add: ds nth_attempt_rows[OF i])
    from i len have "snd F ! i \<in> set (snd F)" by simp
    then have "snd F ! i \<in> set (webhook_deliveries (fst F))" by (simp add: db')
    then show ?thesis
      by (simp add: nth attempt_row_fields attempt_row_transport_failure)
  qed
  from len row
  show "let matching = filter (\<lambda>w. wh_project_id w = project_id \<and> wh_is_active w
              \<and> (event \<in> set (wh_events w) \<or> ''*'' \<in> set (wh_events w))) (webhooks db)
       in case fire_webhook env n db project_id event payload of (db', ds) \<Rightarrow>
         length ds = length matching
         \<and> (\<forall>i<length matching.
               d_webhook_id (ds ! i) = wh_id (matching ! i)
               \<and> ds ! i \<in> set (webhook_deliveries db')
               \<and> (\<forall>exc. delivery_post env (n + i) (matching ! i) event payload = Inl exc \<longrightarrow>
                     d_status_code (ds ! i) = None
                     \<and> d_response_body (ds ! i) = Some (take 2000 exc)
                     \<and> d_delivered_at (ds ! i) = None
                     \<and> d_attempt_count (ds ! i) = 1))"
    unfolding Let_def matching_def[symmetric] F_def[symmetric] split_beta by blast
qed

theorem fire_webhook_absorbs_transport_failures_witness:
  "delivery_post example_env (1 + 1) hook_all ''memory.created'' memory_payload = Inl ''timed out''
   \<and> length (snd (fire_webhook example_env 1 hook_db ''p1'' ''memory.created'' memory_payload)) = 2
   \<and> d_webhook_id (snd (fire_webhook example_env 1 hook_db ''p1'' ''memory.created'' memory_payload) ! 1)
       = ''w2''
   \<and> d_status_code (snd (fire_webhook example_env 1 hook_db ''p1'' ''memory.created'' memory_payload) ! 1)
       = None
   \<and> d_response_body (snd (fire_webhook example_env 1 hook_db ''p1'' ''memory.created'' memory_payload) ! 1)
       = Some ''timed out''
   \<and> d_delivered_at (snd (fire_webhook example_env 1 hook_db ''p1'' ''memory.created'' memory_payload) ! 1)
       = None"
proof -
  let ?F = "fire_webhook example_env 1 hook_db ''p1'' ''memory.created'' memory_payload"
  let ?matching = "filter (\<lambda>w. wh_project_id w = ''p1'' \<and> wh_is_active w
              \<and> (''memory.created'' \<in> set (wh_events w) \<or> ''*'' \<in> set (wh_events w)))
            (webhooks hook_db)"
  have post: "delivery_post example_env (1 + 1) hook_all ''memory.created'' memory_payload
      = Inl ''timed out''"
    by (simp add: delivery_post_def post_event_def example_env_def)
  have m: "length ?matching = 2" "?matching ! 1 = hook_all"
    by (simp_all add: hook_db_matching_created)
  note T = fire_webhook_absorbs_transport_failures[where env = example_env and n = 1
      and db = hook_db and project_id = "''p1''" and event = "''memory.created''"
      and payload = memory_payload, unfolded Let_def split_beta, THEN conjunct2]
  from T have len: "length (snd ?F) = length ?matching" by blast
  from T m(1) have "d_webhook_id (snd ?F ! 1) = wh_id (?matching ! 1)
      \<and> (\<forall>exc. delivery_post example_env (1 + 1) (?matching ! 1) ''memory.created'' memory_payload
              = Inl exc \<longrightarrow>
            d_status_code (snd ?F ! 1) = None
            \<and> d_response_body (snd ?F ! 1) = Some (take 2000 exc)
            \<and> d_delivered_at (snd ?F ! 1) = None
            \<and> d_attempt_count (snd ?F ! 1) = 1)"
    by simp
  with m(2) post have row: "d_webhook_id (snd ?F ! 1) = wh_id hook_all"
      "d_status_code (snd ?F ! 1) = None"
      "d_response_body (snd ?F ! 1) = Some (take 2000 ''timed out'')"
      "d_delivered_at (snd ?F ! 1) = None"
    by simp_all
  from len m(1) have c1: "length (snd ?F) = 2" by simp
  from row(1) have c2: "d_webhook_id (snd ?F ! 1) = ''w2''" by (simp add: hook_all_def)
  from row(3) have c3: "d_response_body (snd ?F ! 1) = Some ''timed out''" by simp
  from post c1 c2 row(2) c3 row(4) show ?thesis by simp
qed

section \<open>Which webhooks an event reaches\<close>

text \<open>
  Claim C9. \<open>fire_webhook project_id event payload\<close> makes a delivery attempt for exactly
  the webhooks of the project that are active and whose subscribed events contain the
  event name or the wildcard \<open>*\<close>, one attempt each, in table order: the \<open>i\<close>-th matching
  webhook is sent POST number \<open>n + i\<close>, signed with its secret, and the \<open>i\<close>-th delivery is
  the row \<open>deliver\<close> records for the answer to that POST. A subscription with \<open>*\<close> matches
  every event and one without it matches only the names it lists. When no webhook
  matches, no delivery row is created and the call returns with the tables as they were.
\<close>

theorem fire_webhook_subscribed_webhooks:
  "(let matching = filter (\<lambda>w. wh_project_id w = project_id \<and> wh_is_active w
              \<and> (event \<in> set (wh_events w) \<or> ''*'' \<in> set (wh_events w))) (webhooks db)
    in case fire_webhook env n db project_id event payload of (db', ds) \<Rightarrow>
      map d_webhook_id ds = map wh_id matching
      \<and> webhook_deliveries db' = webhook_deliveries db @ ds
      \<and> ds = attempt_rows env n matching event payload
      \<and> length ds = length matching
      \<and> (\<forall>i<length matching.
            ds ! i = snd (deliver env (n + i) db (matching ! i) event payload)
            \<and> (\<forall>resp. post_event env (n + i) (wh_url (matching ! i)) (json_dumps env payload)
                         (sign_payload env (json_dumps env payload) (wh_secret (matching ! i)))
                         event = Inr resp \<longrightarrow>
                   d_status_code (ds ! i) = Some (resp_status_code resp)
                   \<and> d_response_body (ds ! i)
                       = (if resp_text resp \<noteq> [] then Some (take 2000 (resp_text resp)) else None)
                   \<and> (d_delivered_at (ds ! i) \<noteq> None
                        \<longleftrightarrow> 200 \<le> resp_status_code resp \<and> resp_status_code resp < 300))
            \<and> (\<forall>exc. post_event env (n + i) (wh_url (matching ! i)) (json_dumps env payload)
                         (sign_payload env (json_dumps env payload) (wh_secret (matching ! i)))
                         event = Inl exc \<longrightarrow>
                   d_status_code (ds ! i) = None
                   \<and> d_response_body (ds ! i) = Some (take 2000 exc)
                   \<and> d_delivered_at (ds ! i) = None)))
   \<and> ((\<forall>w\<in>set (webhooks db). \<not> (wh_project_id w = project_id \<and> wh_is_active w
              \<and> (event \<in> set (wh_events w) \<or> ''*'' \<in> set (wh_events w)))) \<longrightarrow>
        fire_webhook env n db project_id event payload = (db, []))"
proof (intro conjI impI)
  define matching where "matching = filter (\<lambda>w. wh_project_id w = project_id \<and> wh_is_active w
              \<and> (event \<in> set (wh_events w) \<or> ''*'' \<in> set (wh_events w))) (webhooks db)"
  define F where "F = fire_webhook env n db project_id event payload"
  have ds: "snd F = attempt_rows env n matching event payload"
    by (simp add: F_def matching_def fire_webhook_snd)
  have ids: "map d_webhook_id (snd F) = map wh_id matching"
    by (simp add: ds attempt_rows_webhook_ids)
  have db': "webhook_deliveries (fst F) = webhook_deliveries db @ snd F"
    by (simp add: F_def fire_webhook_deliveries)
  have len: "length (snd F) = length matching" by (simp add: ds)
  have row: "snd F ! i = snd (deliver env (n + i) db (matching ! i) event payload)
            \<and> (\<forall>resp. post_event env (n + i) (wh_url (matching ! i)) (json_dumps env payload)
                         (sign_payload env (json_dumps env payload) (wh_secret (matching ! i)))
                         event = Inr resp \<longrightarrow>
                   d_status_code (snd F ! i) = Some (resp_status_code resp)
                   \<and> d_response_body (snd F ! i)
                       = (if resp_text resp \<noteq> [] then Some (take 2000 (resp_text resp)) else None)
                   \<and> (d_delivered_at (snd F ! i) \<noteq> None
                        \<longleftrightarrow> 200 \<le> resp_status_code resp \<and> resp_status_code resp < 300))
            \<and> (\<forall>exc. post_event env (n + i) (wh_url (matching ! i)) (json_dumps env payload)
                         (sign_payload env (json_dumps env payload) (wh_secret (matching ! i)))
                         event = Inl exc \<longrightarrow>
                   d_status_code (snd F ! i) = None
                   \<and> d_response_body (snd F ! i) = Some (take 2000 exc)
                   \<and> d_delivered_at (snd F ! i) = None)"
    if i: "i < length matching" for i
  proof -
    have nth: "snd F ! i = attempt_row env (n + i) (matching ! i) event payload"
      by (simp add: ds nth_attempt_rows[OF i])
    have post: "post_event env (n + i) (wh_url (matching ! i)) (json_dumps env payload)
                         (sign_payload env (json_dumps env payload) (wh_secret (matching ! i)))
                         event = delivery_post env (n + i) (matching ! i) event payload"
      by (simp add: delivery_post_def)
    show ?thesis
      unfolding nth post
      using attempt_row_response[of env "n + i" "matching ! i" event payload]
        attempt_row_transport_failure[of env "n + i" "matching ! i" event payload]
      by (simp add: deliver_eq)
  qed
  from ids db' ds len row
  show "let matching = filter (\<lambda>w. wh_project_id w = project_id \<and> wh_is_active w
              \<and> (event \<in> set (wh_events w) \<or> ''*'' \<in> set (wh_events w))) (webhooks db)
    in case fire_webhook env n db project_id event payload of (db', ds) \<Rightarrow>
      map d_webhook_id ds = map wh_id matching
      \<and> webhook_deliveries db' = webhook_deliveries db @ ds
      \<and> ds = attempt_rows env n matching event payload
      \<and> length ds = length matching
      \<and> (\<forall>i<length matching.
            ds ! i = snd (deliver env (n + i) db (matching ! i) event payload)
            \<and> (\<forall>resp. post_event env (n + i) (wh_url (matching ! i)) (json_dumps env payload)
                         (sign_payload env (json_dumps env payload) (wh_secret (matching ! i)))
                         event = Inr resp \<longrightarrow>
                   d_status_code (ds ! i) = Some (resp_status_code resp)
                   \<and> d_response_body (ds ! i)
                       = (if resp_text resp \<noteq> [] then Some (take 2000 (resp_text resp)) else None)
                   \<and> (d_delivered_at (ds ! i) \<noteq> None
                        \<longleftrightarrow> 200 \<le> resp_status_code resp \<and> resp_status_code resp < 300))
            \<and> (\<forall>exc. post_event env (n + i) (wh_url (matching ! i)) (json_dumps env payload)
                         (sign_payload env (json_dumps env payload) (wh_secret (matching ! i)))
                         event = Inl exc \<longrightarrow>
                   d_status_code (ds ! i) = None
                   \<and> d_response_body (ds ! i) = Some (take 2000 exc)
                   \<and> d_delivered_at (ds ! i) = None))"
    unfolding Let_def matching_def[symmetric] F_def[symmetric] split_beta by blast
next
  assume "\<forall>w\<in>set (webhooks db). \<not> (wh_project_id w = project_id \<and> wh_is_active w
              \<and> (event \<in> set (wh_events w) \<or> ''*'' \<in> set (wh_events w)))"
  then have "filter (\<lambda>w. wh_project_id w = project_id \<and> wh_is_active w
              \<and> (event \<in> set (wh_events w) \<or> ''*'' \<in> set (wh_events w))) (webhooks db) = []"
    unfolding filter_empty_conv by blast
  then show "fire_webhook env n db project_id event payload = (db, [])"
    by (rule fire_webhook_no_match)
qed

theorem fire_webhook_subscribed_webhooks_witness:
  "map d_webhook_id (snd (fire_webhook example_env 0 hook_db ''p1'' ''memory.created'' memory_payload))
     = [''w1'', ''w2'']
   \<and> map d_status_code (snd (fire_webhook example_env 0 hook_db ''p1'' ''memory.created'' memory_payload))
     = [Some 200, Some 500]
   \<and> map d_webhook_id (snd (fire_webhook example_env 0 hook_db ''p1'' ''memory.deleted'' memory_payload))
     = [''w2'', ''w3'']
   \<and> fire_webhook example_env 0 hook_db ''p2'' ''memory.created'' memory_payload = (hook_db, [])"
proof -
  note T = fire_webhook_subscribed_webhooks[where env = example_env and n = 0 and db = hook_db
      and payload = memory_payload, unfolded Let_def split_beta]
  note T1 = T[where project_id = "''p1''" and event = "''memory.created''", THEN conjunct1]
  have c1: "map d_webhook_id
      (snd (fire_webhook example_env 0 hook_db ''p1'' ''memory.created'' memory_payload))
     = [''w1'', ''w2'']"
    using T1[THEN conjunct1]
    by (simp add: hook_db_matching_created hook_created_def hook_all_def)
  have rows: "snd (fire_webhook example_env 0 hook_db ''p1'' ''memory.created'' memory_payload)
     = attempt_rows example_env 0 [hook_created, hook_all] ''memory.created'' memory_payload"
    using T1[THEN conjunct2, THEN conjunct2, THEN conjunct1]
    by (simp only: hook_db_matching_created)
  have c2: "map d_status_code
      (snd (fire_webhook example_env 0 hook_db ''p1'' ''memory.created'' memory_payload))
     = [Some 200, Some 500]"
    unfolding rows by (simp add: attempt_row_def example_env_posts)
  have m2: "filter (\<lambda>w. wh_project_id w = ''p1'' \<and> wh_is_active w
              \<and> (''memory.deleted'' \<in> set (wh_events w) \<or> ''*'' \<in> set (wh_events w)))
     (webhooks hook_db) = [hook_all, hook_deleted]"
    by (simp add: hook_db_def hook_created_def hook_all_def hook_deleted_def hook_off_def)
  have c3: "map d_webhook_id
      (snd (fire_webhook example_env 0 hook_db ''p1'' ''memory.deleted'' memory_payload))
     = [''w2'', ''w3'']"
    using T[where project_id = "''p1''" and event = "''memory.deleted''", THEN conjunct1, THEN conjunct1]
    by (simp add: m2 hook_deleted_def hook_all_def)
  have none: "\<forall>w\<in>set (webhooks hook_db). \<not> (wh_project_id w = ''p2'' \<and> wh_is_active w
              \<and> (''memory.created'' \<in> set (wh_events w) \<or> ''*'' \<in> set (wh_events w)))"
    by (simp add: hook_db_def hook_created_def hook_all_def hook_deleted_def hook_off_def)
  have c4: "fire_webhook example_env 0 hook_db ''p2'' ''memory.created'' memory_payload = (hook_db, [])"
    using T[where project_id = "''p2''" and event = "''memory.created''", THEN conjunct2] none
    by blast
  from c1 c2 c3 c4 show ?thesis by simp
qed

section \<open>The retry sweep\<close>

lemma retry_attempted_iff:
  assumes "distinct (map wh_id whs)"
  shows "retry_attempted whs d \<longleftrightarrow>
    d_delivered_at d = None \<and> d_attempt_count d < 3
    \<and> (\<exists>w\<in>set whs. wh_id w = d_webhook_id d \<and> wh_is_active w)"
proof (cases "parent_webhook whs d")
  case None
  then have "\<not> (\<exists>w\<in>set whs. wh_id w = d_webhook_id d)"
    by (simp add: parent_webhook_def find_None_iff)
  with None show ?thesis by (auto simp: retry_attempted_def)
next
  case (Some w)
  then have w: "w \<in> set whs" "wh_id w = d_webhook_id d"
    by (auto simp: parent_webhook_def find_Some_iff in_set_conv_nth)
  from assms have inj: "inj_on wh_id (set whs)" by (simp add: distinct_map)
  have "(\<exists>x\<in>set whs. wh_id x = d_webhook_id d \<and> wh_is_active x) \<longleftrightarrow> wh_is_active w"
  proof
    assume "\<exists>x\<in>set whs. wh_id x = d_webhook_id d \<and> wh_is_active x"
    then obtain x where x: "x \<in> set whs" "wh_id x = d_webhook_id d" "wh_is_active x" by blast
    with w have "wh_id x = wh_id w" by simp
    with inj x(1) w(1) have "x = w" by (rule_tac inj_onD)
    with x(3) show "wh_is_active w" by simp
  next
    assume "wh_is_active w"
    with w show "\<exists>x\<in>set whs. wh_id x = d_webhook_id d \<and> wh_is_active x" by blast
  qed
  with Some show ?thesis by (simp add: retry_attempted_def)
qed

lemma retry_loop_pass:
  assumes "\<not> retry_attempted whs d" and "distinct (map wh_id whs)"
  shows "retry_loop env (d # ds) n whs r = keep_row d (retry_loop env ds n whs r)"
proof (cases "d_delivered_at d = None \<and> d_attempt_count d < 3")
  case False
  then show ?thesis by auto
next
  case True
  with assms(1) have "case parent_webhook whs d of None \<Rightarrow> True | Some w \<Rightarrow> \<not> wh_is_active w"
    by (simp add: retry_attempted_def split: option.splits)
  with True show ?thesis
    by (simp add: lookup_by_id[OF assms(2)] parent_webhook_def split: option.splits)
qed

lemma retry_loop_attempt:
  assumes "retry_attempted whs d" and "distinct (map wh_id whs)"
    and "parent_webhook whs d = Some w"
  shows "retry_loop env (d # ds) n whs r =
    keep_row (retried_row env n w d)
      (retry_loop env ds (Suc n)
         (map (\<lambda>x. if x = w
                then w\<lparr>wh_last_triggered_at := Some (utcnow env (2 * n + 1)),
                       wh_last_status_code := d_status_code (retried_row env n w d)\<rparr>
                else x) whs)
         (if is_2xx (retry_post env n w d) then r + 1 else r))"
proof -
  from assms(1,3) have el: "d_delivered_at d = None" "d_attempt_count d < 3" "wh_is_active w"
    by (simp_all add: retry_attempted_def)
  from assms(3) have look: "scalar_one_or_none (filter (\<lambda>x. wh_id x = d_webhook_id d) whs) = Inr (Some w)"
    by (simp add: lookup_by_id[OF assms(2)] parent_webhook_def)
  show ?thesis
  proof (cases "retry_post env n w d")
    case (Inl exc)
    then have "post_event env n (wh_url w) (json_dumps env (d_payload d))
        (sign_payload env (json_dumps env (d_payload d)) (wh_secret w)) (d_event d) = Inl exc"
      by (simp add: retry_post_def)
    with Inl el look show ?thesis
      by (simp add: retried_row_def is_2xx_def Let_def cong: if_cong)
  next
    case (Inr resp)
    then have "post_event env n (wh_url w) (json_dumps env (d_payload d))
        (sign_payload env (json_dumps env (d_payload d)) (wh_secret w)) (d_event d) = Inr resp"
      by (simp add: retry_post_def)
    with Inr el look show ?thesis
      by (simp add: retried_row_def is_2xx_def Let_def cong: if_cong)
  qed
qed

subsection \<open>Columns of a webhook that a sweep does not write\<close>

lemma touch_static:
  assumes "wh_static w' = wh_static w"
  shows "map wh_static (map (\<lambda>x. if x = w then w' else x) whs) = map wh_static whs"
  using assms by (induction whs) auto

lemma static_ids:
  assumes "map wh_static a = map wh_static b"
  shows "map wh_id a = map wh_id b"
proof -
  have "map fst (map wh_static xs) = map wh_id xs" for xs
    by (induction xs) (simp_all add: wh_static_def)
  from this[of a] this[of b] assms show ?thesis by simp
qed

lemma parent_static:
  assumes "map wh_static a = map wh_static b"
  shows "map_option wh_static (parent_webhook a d) = map_option wh_static (parent_webhook b d)"
  using assms
proof (induction a arbitrary: b)
  case Nil
  then show ?case by (simp add: parent_webhook_def)
next
  case (Cons x a)
  then obtain y b' where b: "b = y # b'" and xy: "wh_static x = wh_static y"
    and rest: "map wh_static a = map wh_static b'"
    by (cases b) auto
  from xy have "wh_id x = wh_id y" by (simp add: wh_static_def)
  with Cons.IH[OF rest] xy b show ?case by (simp add: parent_webhook_def)
qed

lemma parent_static_cases:
  assumes "map wh_static a = map wh_static b"
  shows "(parent_webhook a d = None \<and> parent_webhook b d = None)
     \<or> (\<exists>w1 w2. parent_webhook a d = Some w1 \<and> parent_webhook b d = Some w2
           \<and> wh_static w1 = wh_static w2)"
  using parent_static[OF assms, of d]
  by (cases "parent_webhook a d"; cases "parent_webhook b d") simp_all

lemma attempted_static:
  assumes "map wh_static a = map wh_static b"
  shows "retry_attempted a d = retry_attempted b d"
  using parent_static_cases[OF assms, of d]
  by (auto simp: retry_attempted_def wh_static_def)

lemma retry_post_static:
  assumes "wh_static w1 = wh_static w2"
  shows "retry_post env n w1 d = retry_post env n w2 d"
  using assms by (simp add: retry_post_def wh_static_def)

lemma responses_static:
  assumes "map wh_static a = map wh_static b"
  shows "sweep_responses env a n ds = sweep_responses env b n ds"
proof -
  have f: "filter (retry_attempted a) ds = filter (retry_attempted b) ds"
    by (rule filter_cong) (simp_all add: attempted_static[OF assms])
  have "map (\<lambda>(k, d). retry_post env k (the (parent_webhook a d)) d)
          (enumerate n (filter (retry_attempted b) ds))
      = map (\<lambda>(k, d). retry_post env k (the (parent_webhook b d)) d)
          (enumerate n (filter (retry_attempted b) ds))"
  proof (rule map_cong[OF refl])
    fix p assume "p \<in> set (enumerate n (filter (retry_attempted b) ds))"
    then have idx: "n \<le> fst p" "fst p < length (filter (retry_attempted b) ds) + n"
        "filter (retry_attempted b) ds ! (fst p - n) = snd p"
      by (simp_all add: in_set_enumerate_eq)
    from idx(1,2) have "fst p - n < length (filter (retry_attempted b) ds)" by arith
    from nth_mem[OF this] idx(3) have "snd p \<in> set (filter (retry_attempted b) ds)" by simp
    then obtain k d where p: "p = (k, d)" and "retry_attempted b d"
      by (cases p) simp
    then have "parent_webhook b d \<noteq> None"
      by (auto simp: retry_attempted_def split: option.splits)
    with parent_static_cases[OF assms, of d] obtain w1 w2 where
      ws: "parent_webhook a d = Some w1" "parent_webhook b d = Some w2"
      and same: "wh_static w1 = wh_static w2"
      by auto
    from retry_post_static[OF same, of env k d] p ws
    show "(case p of (k, d) \<Rightarrow> retry_post env k (the (parent_webhook a d)) d)
        = (case p of (k, d) \<Rightarrow> retry_post env k (the (parent_webhook b d)) d)"
      by simp
  qed
  with f show ?thesis by (simp add: sweep_responses_def)
qed

lemma sweep_row_ok_static:
  assumes "map wh_static a = map wh_static b"
  shows "sweep_row_ok a = sweep_row_ok b"
  by (intro ext) (simp add: sweep_row_ok_def attempted_static[OF assms])

subsection \<open>The answers a sweep gets\<close>

lemma sweep_responses_Nil [simp]:
  "sweep_responses env whs n [] = []"
  by (simp add: sweep_responses_def)

lemma sweep_responses_pass:
  "\<not> retry_attempted whs d \<Longrightarrow>
    sweep_responses env whs n (d # ds) = sweep_responses env whs n ds"
  by (simp add: sweep_responses_def)

lemma sweep_responses_attempt:
  "retry_attempted whs d \<Longrightarrow> parent_webhook whs d = Some w \<Longrightarrow>
    sweep_responses env whs n (d # ds)
      = retry_post env n w d # sweep_responses env whs (Suc n) ds"
  by (simp add: sweep_responses_def)

lemma retried_row_fields:
  "d_attempt_count (retried_row env n w d) = d_attempt_count d + 1"
  "d_id (retried_row env n w d) = d_id d"
  "d_webhook_id (retried_row env n w d) = d_webhook_id d"
  "d_event (retried_row env n w d) = d_event d"
  "d_payload (retried_row env n w d) = d_payload d"
  by (simp_all add: retried_row_def split: sum.splits)

lemma retried_row_delivered:
  assumes "d_delivered_at d = None"
  shows "d_delivered_at (retried_row env n w d) \<noteq> None \<longleftrightarrow> is_2xx (retry_post env n w d)"
  using assms by (simp add: retried_row_def is_2xx_def split: sum.splits)

lemma keep_row_Inr [simp]:
  "keep_row d (Inr (ds, s)) = Inr (d # ds, s)"
  by (simp add: keep_row_def)

subsection \<open>The loop\<close>

lemma retry_loop_sweep:
  assumes "distinct (map wh_id whs)"
  shows "\<exists>ds' n' whs'.
      retry_loop env ds n whs r
        = Inr (ds', n', whs', r + int (length (filter is_2xx (sweep_responses env whs n ds))))
      \<and> map wh_static whs' = map wh_static whs
      \<and> list_all2 (sweep_row_ok whs) ds ds'
      \<and> length (filter newly_delivered (zip ds ds'))
          = length (filter is_2xx (sweep_responses env whs n ds))"
  using assms
proof (induction ds arbitrary: n whs r)
  case Nil
  then show ?case by simp
next
  case (Cons d ds)
  show ?case
  proof (cases "retry_attempted whs d")
    case False
    from Cons.IH[OF Cons.prems, of n r] obtain ds' n' whs' where
      loop: "retry_loop env ds n whs r
        = Inr (ds', n', whs', r + int (length (filter is_2xx (sweep_responses env whs n ds))))"
      and st: "map wh_static whs' = map wh_static whs"
      and rows: "list_all2 (sweep_row_ok whs) ds ds'"
      and cnt: "length (filter newly_delivered (zip ds ds'))
          = length (filter is_2xx (sweep_responses env whs n ds))"
      by blast
    have step: "retry_loop env (d # ds) n whs r
        = Inr (d # ds', n', whs',
               r + int (length (filter is_2xx (sweep_responses env whs n (d # ds)))))"
      by (simp only: retry_loop_pass[OF False Cons.prems] loop sweep_responses_pass[OF False]
          keep_row_Inr)
    have ok: "sweep_row_ok whs d d" using False by (simp add: sweep_row_ok_def)
    have "\<not> newly_delivered (d, d)"
      by (cases "d_delivered_at d") (simp_all add: newly_delivered_def)
    with cnt have cnt': "length (filter newly_delivered (zip (d # ds) (d # ds')))
          = length (filter is_2xx (sweep_responses env whs n (d # ds)))"
      by (simp add: sweep_responses_pass[OF False])
    from ok rows have "list_all2 (sweep_row_ok whs) (d # ds) (d # ds')" by simp
    with step st cnt' show ?thesis by blast
  next
    case True
    then obtain w where w: "parent_webhook whs d = Some w"
      by (auto simp: retry_attempted_def split: option.splits)
    from True have undelivered: "d_delivered_at d = None" by (simp add: retry_attempted_def)
    define w' where "w' = w\<lparr>wh_last_triggered_at := Some (utcnow env (2 * n + 1)),
                       wh_last_status_code := d_status_code (retried_row env n w d)\<rparr>"
    define whs1 where "whs1 = map (\<lambda>x. if x = w then w' else x) whs"
    define r1 where "r1 = (if is_2xx (retry_post env n w d) then r + 1 else r)"
    have "wh_static w' = wh_static w" by (simp add: w'_def wh_static_def)
    then have st1: "map wh_static whs1 = map wh_static whs"
      unfolding whs1_def by (rule touch_static)
    from static_ids[OF st1] Cons.prems have d1: "distinct (map wh_id whs1)" by simp
    from Cons.IH[OF d1, of "Suc n" r1] obtain ds' n' whs' where
      loop: "retry_loop env ds (Suc n) whs1 r1
        = Inr (ds', n', whs', r1 + int (length (filter is_2xx (sweep_responses env whs1 (Suc n) ds))))"
      and st: "map wh_static whs' = map wh_static whs1"
      and rows: "list_all2 (sweep_row_ok whs1) ds ds'"
      and cnt: "length (filter newly_delivered (zip ds ds'))
          = length (filter is_2xx (sweep_responses env whs1 (Suc n) ds))"
      by blast
    note resp = responses_static[OF st1, of env "Suc n" ds]
    have total: "r1 + int (length (filter is_2xx (sweep_responses env whs (Suc n) ds)))
        = r + int (length (filter is_2xx (sweep_responses env whs n (d # ds))))"
      by (simp add: r1_def sweep_responses_attempt[OF True w])
    have step: "retry_loop env (d # ds) n whs r
        = Inr (retried_row env n w d # ds', n', whs',
               r + int (length (filter is_2xx (sweep_responses env whs n (d # ds)))))"
      using loop total
      by (simp only: retry_loop_attempt[OF True Cons.prems w] w'_def[symmetric]
          whs1_def[symmetric] r1_def[symmetric] resp keep_row_Inr)
    have ok: "sweep_row_ok whs d (retried_row env n w d)"
      using True by (simp add: sweep_row_ok_def retried_row_fields)
    from rows have rows': "list_all2 (sweep_row_ok whs) ds ds'"
      by (simp add: sweep_row_ok_static[OF st1])
    have "newly_delivered (d, retried_row env n w d) \<longleftrightarrow> is_2xx (retry_post env n w d)"
      using retried_row_delivered[OF undelivered] undelivered by (simp add: newly_delivered_def)
    with cnt have cnt': "length (filter newly_delivered (zip (d # ds) (retried_row env n w d # ds')))
          = length (filter is_2xx (sweep_responses env whs n (d # ds)))"
      by (simp add: sweep_responses_attempt[OF True w] resp)
    from st st1 have st': "map wh_static whs' = map wh_static whs" by simp
    from ok rows' have "list_all2 (sweep_row_ok whs) (d # ds) (retried_row env n w d # ds')"
      by simp
    with step st' cnt' show ?thesis by blast
  qed
qed

text \<open>
  Claim C1. \<open>retry_failed_deliveries\<close> attempts exactly the delivery rows whose
  \<open>delivered_at\<close> is unset and whose \<open>attempt_count\<close> is less than 3, passing by those
  whose parent webhook no longer exists or is inactive and leaving them unchanged; the
  \<open>attempt_count\<close> of every attempted row grows by exactly 1; a row with \<open>delivered_at\<close> set
  or with \<open>attempt_count\<close> already 3 is never modified; and the function returns the number
  of deliveries answered with a 2xx status during this sweep, which is the number of rows
  whose \<open>delivered_at\<close> the sweep sets. Webhook ids are unique, being the primary key.
\<close>

theorem retry_failed_deliveries_sweep:
  assumes "distinct (map wh_id (webhooks db))"
  shows "\<exists>db' retried. retry_failed_deliveries env n db = Inr (db', retried)
    \<and> list_all2 (\<lambda>d d'.
          (d_delivered_at d = None \<and> d_attempt_count d < 3
             \<and> (\<exists>w\<in>set (webhooks db). wh_id w = d_webhook_id d \<and> wh_is_active w)
           \<longrightarrow> d_attempt_count d' = d_attempt_count d + 1 \<and> d_id d' = d_id d
               \<and> d_webhook_id d' = d_webhook_id d \<and> d_event d' = d_event d
               \<and> d_payload d' = d_payload d)
        \<and> (\<not> (\<exists>w\<in>set (webhooks db). wh_id w = d_webhook_id d \<and> wh_is_active w) \<longrightarrow> d' = d)
        \<and> (d_delivered_at d \<noteq> None \<or> 3 \<le> d_attempt_count d \<longrightarrow> d' = d))
        (webhook_deliveries db) (webhook_deliveries db')
    \<and> (\<forall>d. retry_attempted (webhooks db) d \<longleftrightarrow>
            d_delivered_at d = None \<and> d_attempt_count d < 3
            \<and> (\<exists>w\<in>set (webhooks db). wh_id w = d_webhook_id d \<and> wh_is_active w))
    \<and> retried = int (length (filter is_2xx
          (sweep_responses env (webhooks db) n (webhook_deliveries db))))
    \<and> retried = int (length (filter (\<lambda>(d, d'). d_delivered_at d = None \<and> d_delivered_at d' \<noteq> None)
          (zip (webhook_deliveries db) (webhook_deliveries db'))))"
proof -
  let ?whs = "webhooks db" and ?ds = "webhook_deliveries db"
  from retry_loop_sweep[OF assms, of env ?ds n 0] obtain ds' n' whs' where
    loop: "retry_loop env ?ds n ?whs 0
        = Inr (ds', n', whs', int (length (filter is_2xx (sweep_responses env ?whs n ?ds))))"
    and rows: "list_all2 (sweep_row_ok ?whs) ?ds ds'"
    and cnt: "length (filter newly_delivered (zip ?ds ds'))
          = length (filter is_2xx (sweep_responses env ?whs n ?ds))"
    by auto
  define db' where "db' = db\<lparr>webhooks := whs', webhook_deliveries := ds'\<rparr>"
  define retried where "retried = int (length (filter is_2xx (sweep_responses env ?whs n ?ds)))"
  have res: "retry_failed_deliveries env n db = Inr (db', retried)"
    by (simp add: retry_failed_deliveries_def loop db'_def retried_def)
  have ds': "webhook_deliveries db' = ds'" by (simp add: db'_def)
  note iff = retry_attempted_iff[OF assms]
  have rel: "list_all2 (\<lambda>d d'.
          (d_delivered_at d = None \<and> d_attempt_count d < 3
             \<and> (\<exists>w\<in>set ?whs. wh_id w = d_webhook_id d \<and> wh_is_active w)
           \<longrightarrow> d_attempt_count d' = d_attempt_count d + 1 \<and> d_id d' = d_id d
               \<and> d_webhook_id d' = d_webhook_id d \<and> d_event d' = d_event d
               \<and> d_payload d' = d_payload d)
        \<and> (\<not> (\<exists>w\<in>set ?whs. wh_id w = d_webhook_id d \<and> wh_is_active w) \<longrightarrow> d' = d)
        \<and> (d_delivered_at d \<noteq> None \<or> 3 \<le> d_attempt_count d \<longrightarrow> d' = d))
        ?ds (webhook_deliveries db')"
    unfolding ds'
  proof (rule list_all2_mono[OF rows])
    fix d d' assume ok: "sweep_row_ok ?whs d d'"
    show "(d_delivered_at d = None \<and> d_attempt_count d < 3
             \<and> (\<exists>w\<in>set ?whs. wh_id w = d_webhook_id d \<and> wh_is_active w)
           \<longrightarrow> d_attempt_count d' = d_attempt_count d + 1 \<and> d_id d' = d_id d
               \<and> d_webhook_id d' = d_webhook_id d \<and> d_event d' = d_event d
               \<and> d_payload d' = d_payload d)
        \<and> (\<not> (\<exists>w\<in>set ?whs. wh_id w = d_webhook_id d \<and> wh_is_active w) \<longrightarrow> d' = d)
        \<and> (d_delivered_at d \<noteq> None \<or> 3 \<le> d_attempt_count d \<longrightarrow> d' = d)"
    proof (cases "retry_attempted ?whs d")
      case True
      with ok iff[of d] show ?thesis by (simp add: sweep_row_ok_def)
    next
      case False
      with ok have "d' = d" by (simp add: sweep_row_ok_def)
      with False iff[of d] show ?thesis by auto
    qed
  qed
  have "(\<lambda>(d, d'). d_delivered_at d = None \<and> d_delivered_at d' \<noteq> None) = newly_delivered"
    by (intro ext) (simp add: newly_delivered_def split_beta)
  with cnt have cnt': "retried = int (length (filter (\<lambda>(d, d'). d_delivered_at d = None \<and> d_delivered_at d' \<noteq> None)
          (zip ?ds (webhook_deliveries db'))))"
    by (simp add: retried_def ds')
  from res rel iff cnt' retried_def show ?thesis by blast
qed

lemma retry_db_webhooks:
  "webhooks retry_db = [hook_created, hook_all, hook_deleted, hook_off]"
  "webhook_deliveries retry_db
     = [row_failed, row_done, row_exhausted, row_orphan, row_off, row_failed_twice]"
  by (simp_all add: retry_db_def hook_db_def)

lemma retry_db_parents:
  "parent_webhook (webhooks retry_db) row_failed = Some hook_created"
  "parent_webhook (webhooks retry_db) row_failed_twice = Some hook_all"
  by (simp_all add: parent_webhook_def retry_db_webhooks row_failed_def row_failed_twice_def
      hook_created_def hook_all_def)

lemma retry_db_attempted:
  "filter (retry_attempted (webhooks retry_db)) (webhook_deliveries retry_db)
     = [row_failed, row_failed_twice]"
  by (simp add: retry_attempted_def parent_webhook_def retry_db_webhooks
      row_failed_def row_done_def row_exhausted_def row_orphan_def row_off_def
      row_failed_twice_def hook_created_def hook_all_def hook_deleted_def hook_off_def)

lemma example_env_retry_posts:
  "retry_post example_env 0 w d = Inr \<lparr>resp_status_code = 200, resp_text = ''ok''\<rparr>"
  "retry_post example_env (Suc 0) w d = Inr \<lparr>resp_status_code = 500, resp_text = ''''\<rparr>"
  by (simp_all add: retry_post_def post_event_def example_env_def)

lemma retry_db_responses:
  "sweep_responses example_env (webhooks retry_db) 0 (webhook_deliveries retry_db)
     = [Inr \<lparr>resp_status_code = 200, resp_text = ''ok''\<rparr>,
        Inr \<lparr>resp_status_code = 500, resp_text = ''''\<rparr>]"
  by (simp add: sweep_responses_def retry_db_attempted retry_db_parents example_env_retry_posts)

theorem retry_failed_deliveries_sweep_witness:
  "distinct (map wh_id (webhooks retry_db))
   \<and> (\<exists>db'. retry_failed_deliveries example_env 0 retry_db = Inr (db', 1)
        \<and> length (webhook_deliveries db') = 6
        \<and> d_attempt_count (webhook_deliveries db' ! 0) = 2
        \<and> webhook_deliveries db' ! 1 = row_done
        \<and> webhook_deliveries db' ! 2 = row_exhausted
        \<and> webhook_deliveries db' ! 3 = row_orphan
        \<and> webhook_deliveries db' ! 4 = row_off
        \<and> d_attempt_count (webhook_deliveries db' ! 5) = 3)"
proof -
  have h: "distinct (map wh_id (webhooks retry_db))"
    by (simp add: retry_db_webhooks hook_created_def hook_all_def hook_deleted_def hook_off_def)
  from retry_failed_deliveries_sweep[OF h, of example_env 0] obtain db' retried where
    res: "retry_failed_deliveries example_env 0 retry_db = Inr (db', retried)"
    and rows: "list_all2 (\<lambda>d d'.
          (d_delivered_at d = None \<and> d_attempt_count d < 3
             \<and> (\<exists>w\<in>set (webhooks retry_db). wh_id w = d_webhook_id d \<and> wh_is_active w)
           \<longrightarrow> d_attempt_count d' = d_attempt_count d + 1 \<and> d_id d' = d_id d
               \<and> d_webhook_id d' = d_webhook_id d \<and> d_event d' = d_event d
               \<and> d_payload d' = d_payload d)
        \<and> (\<not> (\<exists>w\<in>set (webhooks retry_db). wh_id w = d_webhook_id d \<and> wh_is_active w) \<longrightarrow> d' = d)
        \<and> (d_delivered_at d \<noteq> None \<or> 3 \<le> d_attempt_count d \<longrightarrow> d' = d))
        (webhook_deliveries retry_db) (webhook_deliveries db')"
    and cnt: "retried = int (length (filter is_2xx
          (sweep_responses example_env (webhooks retry_db) 0 (webhook_deliveries retry_db))))"
    by blast
  from cnt have one: "retried = 1" by (simp add: retry_db_responses is_2xx_def)
  from list_all2_lengthD[OF rows] have len: "length (webhook_deliveries db') = 6"
    by (simp add: retry_db_webhooks)
  have nth: "webhook_deliveries retry_db ! 0 = row_failed" "webhook_deliveries retry_db ! 1 = row_done"
      "webhook_deliveries retry_db ! 2 = row_exhausted" "webhook_deliveries retry_db ! 3 = row_orphan"
      "webhook_deliveries retry_db ! 4 = row_off" "webhook_deliveries retry_db ! 5 = row_failed_twice"
    by (simp_all add: retry_db_webhooks)
  have r0: "d_attempt_count (webhook_deliveries db' ! 0) = 2"
    using list_all2_nthD[OF rows, of 0] nth(1)
    by (simp add: retry_db_webhooks row_failed_def hook_created_def)
  have r1: "webhook_deliveries db' ! 1 = row_done"
    using list_all2_nthD[OF rows, of 1] nth(2)
    by (simp add: retry_db_webhooks(2) row_done_def)
  have r2: "webhook_deliveries db' ! 2 = row_exhausted"
    using list_all2_nthD[OF rows, of 2] nth(3)
    by (simp add: retry_db_webhooks(2) row_exhausted_def)
  have r3: "webhook_deliveries db' ! 3 = row_orphan"
    using list_all2_nthD[OF rows, of 3] nth(4)
    by (simp add: retry_db_webhooks row_orphan_def hook_created_def hook_all_def
        hook_deleted_def hook_off_def)
  have r4: "webhook_deliveries db' ! 4 = row_off"
    using list_all2_nthD[OF rows, of 4] nth(5)
    by (simp add: retry_db_webhooks row_off_def hook_created_def hook_all_def
        hook_deleted_def hook_off_def)
  have r5: "d_attempt_count (webhook_deliveries db' ! 5) = 3"
    using list_all2_nthD[OF rows, of 5] nth(6)
    by (simp add: retry_db_webhooks row_failed_twice_def hook_created_def hook_all_def)
  from h res one len r0 r1 r2 r3 r4 r5 show ?thesis by blast
qed

end
